theory Spec2Isabelle
  imports Main
begin

unbundle bit_operations_syntax

section \<open>C strings, pointers and undefined behaviour\<close>

text \<open>
  A C string is the list of its bytes before the terminating NUL; a \<^verbatim>\<open>char *\<close> that may be
  \<^verbatim>\<open>NULL\<close> is a \<^typ>\<open>string option\<close>. Where C leaves the behaviour undefined (a write past a
  fixed-size buffer, a read through a null pointer) the model returns a \<open>fault\<close> instead of a
  value. \<^verbatim>\<open>malloc\<close> and \<^verbatim>\<open>strdup\<close> are taken to succeed. \<^verbatim>\<open>free\<close> of a pointer that they
  returned has no effect in the model; \<^verbatim>\<open>free\<close> of any other pointer is undefined behaviour
  (the C library aborts the process), the fault \<open>InvalidFree\<close>.
\<close>

datatype fault = BufferOverrun | NullDereference | InvalidFree

text \<open>A pointer into a block of bytes is modelled by the string it points to, a suffix of
  the block. It is the pointer that \<^verbatim>\<open>malloc\<close> returned for the block exactly when nothing
  of the block lies before it.\<close>

definition points_to_start :: "string \<Rightarrow> string \<Rightarrow> bool" where
  "points_to_start block ptr = (length ptr = length block)"

text \<open>\<^verbatim>\<open>isalnum\<close> of \<^verbatim>\<open>ctype.h\<close> in the C locale (the shell never calls \<^verbatim>\<open>setlocale\<close>).\<close>

definition isalnum :: "char \<Rightarrow> bool" where
  "isalnum c =
     (let n = (of_char c :: nat)
      in (48 \<le> n \<and> n \<le> 57) \<or> (65 \<le> n \<and> n \<le> 90) \<or> (97 \<le> n \<and> n \<le> 122))"

text \<open>\<^verbatim>\<open>getenv\<close> and \<^verbatim>\<open>setenv\<close> on the process environment, a map from names to values.
  \<^verbatim>\<open>setenv\<close> rejects an empty name and a name that contains \<^verbatim>\<open>=\<close> (EINVAL); with a nonzero
  \<^verbatim>\<open>overwrite\<close> it replaces an existing value.\<close>

type_synonym environment = "string \<rightharpoonup> string"

definition getenv :: "environment \<Rightarrow> string \<Rightarrow> string option" where
  "getenv env name = env name"

definition setenv :: "environment \<Rightarrow> string \<Rightarrow> string \<Rightarrow> int \<Rightarrow> int \<times> environment" where
  "setenv env name val overwrite =
     (if name = [] \<or> CHR ''='' \<in> set name then (- 1, env)
      else if overwrite = 0 \<and> env name \<noteq> None then (0, env)
      else (0, env(name \<mapsto> val)))"

section \<open>Text expansion (cmd.c, \<^verbatim>\<open>expand_variables\<close> and \<^verbatim>\<open>remove_quotes\<close>)\<close>

text \<open>The inner loop of \<^verbatim>\<open>expand_variables\<close>:
  \<^verbatim>\<open>while (*ptr && (isalnum(*ptr) || *ptr == '_')) *var_ptr++ = *ptr++;\<close>
  It returns the bytes stored in \<^verbatim>\<open>var_name\<close> and the rest of the input.\<close>

fun scan_var_name :: "string \<Rightarrow> string \<Rightarrow> string \<times> string" where
  "scan_var_name [] var_name = (var_name, [])"
| "scan_var_name (c # ptr) var_name =
     (if isalnum c \<or> c = CHR ''_'' then scan_var_name ptr (var_name @ [c])
      else (var_name, c # ptr))"

lemma scan_var_name_length: "length (snd (scan_var_name ptr var_name)) \<le> length ptr"
  by (induction ptr arbitrary: var_name) (auto simp: le_SucI)

lemma scan_var_name_shorter:
  "(var_name', ptr') = scan_var_name ptr var_name \<Longrightarrow> length ptr' < Suc (length ptr)"
  using scan_var_name_length [of ptr var_name] by (metis le_imp_less_Suc snd_conv)

text \<open>The outer loop. \<open>path_max\<close> is \<^verbatim>\<open>PATH_MAX\<close> of \<^verbatim>\<open>limits.h\<close>, the size of the output
  buffer; \<^verbatim>\<open>var_name\<close> has 128 bytes, zero-initialised, so a name of 128 bytes or more is
  written or read past its end. \<open>output\<close> is what has been written to the buffer so far;
  each store checks that it stays inside the buffer (\<^verbatim>\<open>sprintf\<close> also stores the NUL).\<close>

function expand_loop :: "nat \<Rightarrow> environment \<Rightarrow> string \<Rightarrow> string \<Rightarrow> fault + string" where
  "expand_loop path_max env [] output =
     (if length output < path_max then Inr output else Inl BufferOverrun)"
| "expand_loop path_max env (c # ptr) output =
     (if c = CHR ''$'' then
        (case scan_var_name ptr [] of
           (var_name, ptr') \<Rightarrow>
             if 128 \<le> length var_name then Inl BufferOverrun
             else (case getenv env var_name of
                     None \<Rightarrow> expand_loop path_max env ptr' output
                   | Some val \<Rightarrow>
                       if length output + length val < path_max
                       then expand_loop path_max env ptr' (output @ val)
                       else Inl BufferOverrun))
      else if length output < path_max then expand_loop path_max env ptr (output @ [c])
      else Inl BufferOverrun)"
  by pat_completeness auto
termination
  by (relation "measure (\<lambda>(path_max, env, ptr, output). length ptr)")
    (auto intro: scan_var_name_shorter)

definition expand_variables ::
  "nat \<Rightarrow> environment \<Rightarrow> string option \<Rightarrow> fault + string option" where
  "expand_variables path_max env input =
     (case input of
        None \<Rightarrow> Inr None
      | Some s \<Rightarrow> (case expand_loop path_max env s [] of
                     Inl f \<Rightarrow> Inl f
                   | Inr expanded \<Rightarrow> Inr (Some expanded)))"

text \<open>The loop of \<^verbatim>\<open>remove_quotes\<close>; the buffer has \<^verbatim>\<open>strlen(input) + 1\<close> bytes.\<close>

fun remove_quotes_loop :: "string \<Rightarrow> string \<Rightarrow> string" where
  "remove_quotes_loop [] output = output"
| "remove_quotes_loop (c # ptr) output =
     (if c \<noteq> CHR 0x27 \<and> c \<noteq> CHR 0x22 then remove_quotes_loop ptr (output @ [c])
      else remove_quotes_loop ptr output)"

definition remove_quotes :: "string option \<Rightarrow> string option" where
  "remove_quotes input =
     (case input of None \<Rightarrow> None | Some s \<Rightarrow> Some (remove_quotes_loop s []))"

section \<open>The command tree\<close>

text \<open>The types of the command tree are declared in a header of the parser, which is not
  among the sources at hand; they are modelled with the fields that cmd.c reads. A pointer
  that may be null is an option; the null \<^verbatim>\<open>command_t *\<close> is \<open>NULL_command\<close>. The field \<^verbatim>\<open>in\<close>
  of a simple command is written \<open>in_word\<close>. Every operator other than the six that
  \<^verbatim>\<open>parse_command\<close> names reaches its \<^verbatim>\<open>default\<close> branch and is written \<open>OP_DUMMY\<close>.\<close>

record word_t =
  string :: "string option"

record simple_command_t =
  verb :: "word_t option"
  params :: "word_t option"
  in_word :: "word_t option"
  out :: "word_t option"
  err :: "word_t option"
  io_flags :: int

datatype operator_t =
  OP_NONE | OP_SEQUENTIAL | OP_PARALLEL | OP_CONDITIONAL_ZERO | OP_CONDITIONAL_NZERO
  | OP_PIPE | OP_DUMMY

datatype command_t =
  NULL_command
  | Command operator_t "simple_command_t option" command_t command_t

section \<open>The process and the operating system\<close>

text \<open>A process owns its environment, its table of file descriptors and its working
  directory; \<^verbatim>\<open>fork\<close> copies them. The table maps a descriptor (its index) to the open file
  description it refers to, named by a number that the kernel hands out. Everything that
  processes share (the file system, the terminal, what other programs do) is the world
  \<open>'w\<close>, which the model threads through every system call.\<close>

type_synonym fd_table = "nat option list"

record process =
  environ :: environment
  fds :: fd_table
  cwd :: string

datatype oflag = O_RDONLY | O_WRONLY | O_CREAT | O_APPEND | O_TRUNC

datatype errno = EMFILE | ENFILE | EAGAIN | ENOMEM | EOTHER

text \<open>The status that \<^verbatim>\<open>waitpid\<close> stores: the child called \<^verbatim>\<open>exit\<close> (or returned from main)
  with a status of 0..255, or a signal killed it.\<close>

datatype wstatus = Exited nat | Signaled nat

definition WIFEXITED :: "wstatus \<Rightarrow> bool" where
  "WIFEXITED st = (case st of Exited _ \<Rightarrow> True | Signaled _ \<Rightarrow> False)"

definition WEXITSTATUS :: "wstatus \<Rightarrow> int" where
  "WEXITSTATUS st = (case st of Exited n \<Rightarrow> int n | Signaled _ \<Rightarrow> 0)"

text \<open>\<^verbatim>\<open>exit(code)\<close> hands the parent the low eight bits of \<open>code\<close>.\<close>

definition exit_status :: "int \<Rightarrow> wstatus" where
  "exit_status code = Exited (nat (code mod 256))"

definition EXIT_FAILURE :: int where "EXIT_FAILURE = 1"
definition STDIN_FILENO :: int where "STDIN_FILENO = 0"
definition STDOUT_FILENO :: int where "STDOUT_FILENO = 1"
definition STDERR_FILENO :: int where "STDERR_FILENO = 2"
definition SIGSEGV :: nat where "SIGSEGV = 11"

text \<open>What cmd.c takes from outside: the constants and helpers of the headers that are
  not among the sources (\<^verbatim>\<open>SHELL_EXIT\<close>, \<^verbatim>\<open>IO_OUT_APPEND\<close>, \<^verbatim>\<open>IO_ERR_APPEND\<close>, \<^verbatim>\<open>get_word\<close>,
  \<^verbatim>\<open>get_argv\<close>), \<^verbatim>\<open>PATH_MAX\<close>, and the answers of the operating system.
  \<^item> \<open>sys_open\<close>: the new open file description, or none when \<^verbatim>\<open>open\<close> fails;
  \<^item> \<open>sys_pipe\<close>: the read and the write end, or the \<^verbatim>\<open>errno\<close> of the failure;
  \<^item> \<open>sys_fork\<close>: the \<^verbatim>\<open>errno\<close> when \<^verbatim>\<open>fork\<close> fails;
  \<^item> \<open>sys_chdir\<close>: from the working directory and the target, the new working directory,
    or none when \<^verbatim>\<open>chdir\<close> fails;
  \<^item> \<open>sys_execvp\<close>: the run of the program in the calling process, to its end: the status
    its parent will read and the world it leaves, or none when \<^verbatim>\<open>execvp\<close> fails;
  \<^item> \<open>sys_write\<close>: the effect of writing bytes to an open file description;
  \<^item> \<open>sys_signal\<close>: the signal, if any, that kills a forked copy of the shell from
    outside before it exits.
  \<^item> \<open>sys_waitpid\<close>: whether a \<^verbatim>\<open>waitpid\<close> whose result the code tests succeeds (it fails
    with \<^verbatim>\<open>ECHILD\<close>, once the children have ended, in a shell started with \<^verbatim>\<open>SIGCHLD\<close>
    ignored).
  External programs are taken to terminate. Where the code reads the status without
  testing the result of \<^verbatim>\<open>waitpid\<close> (\<^verbatim>\<open>parse_simple\<close>, \<^verbatim>\<open>run_on_pipe\<close>), the call is taken to
  succeed.\<close>

record 'w platform =
  PATH_MAX :: nat
  SHELL_EXIT :: int
  IO_OUT_APPEND :: int
  IO_ERR_APPEND :: int
  get_word :: "environment \<Rightarrow> word_t \<Rightarrow> string"
  get_argv :: "environment \<Rightarrow> simple_command_t \<Rightarrow> string list"
  sys_open :: "'w \<Rightarrow> string \<Rightarrow> oflag set \<Rightarrow> nat option \<times> 'w"
  sys_pipe :: "'w \<Rightarrow> (errno + nat \<times> nat) \<times> 'w"
  sys_fork :: "'w \<Rightarrow> errno option \<times> 'w"
  sys_chdir :: "'w \<Rightarrow> string \<Rightarrow> string \<Rightarrow> string option"
  sys_execvp :: "'w \<Rightarrow> process \<Rightarrow> string \<Rightarrow> string list \<Rightarrow> (wstatus \<times> 'w) option"
  sys_write :: "'w \<Rightarrow> nat \<Rightarrow> string \<Rightarrow> 'w"
  sys_signal :: "'w \<Rightarrow> nat option"
  sys_waitpid :: "'w \<Rightarrow> bool \<times> 'w"

text \<open>How a call ends in the process that makes it: it returns a value, with the process
  and the world as they then are; or the process has called \<^verbatim>\<open>exit\<close>; or the behaviour
  is undefined.\<close>

datatype ('a, 'w) outcome =
  Returns 'a process 'w
  | Exits int 'w
  | Faults fault 'w

subsection \<open>File descriptors\<close>

definition fd_lookup :: "fd_table \<Rightarrow> int \<Rightarrow> nat option" where
  "fd_lookup t fd = (if 0 \<le> fd \<and> nat fd < length t then t ! nat fd else None)"

definition fd_store :: "fd_table \<Rightarrow> nat \<Rightarrow> nat option \<Rightarrow> fd_table" where
  "fd_store t i d =
     (if i < length t then t[i := d] else t @ replicate (i - length t) None @ [d])"

text \<open>A new descriptor is the lowest one that is not open.\<close>

fun lowest_free :: "fd_table \<Rightarrow> nat" where
  "lowest_free [] = 0"
| "lowest_free (None # t) = 0"
| "lowest_free (Some d # t) = Suc (lowest_free t)"

definition fd_dup :: "fd_table \<Rightarrow> int \<Rightarrow> int \<times> fd_table" where
  "fd_dup t oldfd =
     (case fd_lookup t oldfd of
        None \<Rightarrow> (- 1, t)
      | Some d \<Rightarrow> (int (lowest_free t), fd_store t (lowest_free t) (Some d)))"

definition fd_dup2 :: "fd_table \<Rightarrow> int \<Rightarrow> int \<Rightarrow> int \<times> fd_table" where
  "fd_dup2 t oldfd newfd =
     (case fd_lookup t oldfd of
        None \<Rightarrow> (- 1, t)
      | Some d \<Rightarrow> if newfd < 0 then (- 1, t) else (newfd, fd_store t (nat newfd) (Some d)))"

definition fd_close :: "fd_table \<Rightarrow> int \<Rightarrow> fd_table" where
  "fd_close t fd = (case fd_lookup t fd of None \<Rightarrow> t | Some d \<Rightarrow> fd_store t (nat fd) None)"

definition fd_open ::
  "'w platform \<Rightarrow> fd_table \<Rightarrow> 'w \<Rightarrow> string \<Rightarrow> oflag set \<Rightarrow> int \<times> fd_table \<times> 'w" where
  "fd_open sys t w path flags =
     (case sys_open sys w path flags of
        (None, w') \<Rightarrow> (- 1, t, w')
      | (Some d, w') \<Rightarrow> (int (lowest_free t), fd_store t (lowest_free t) (Some d), w'))"

text \<open>Bytes written through a descriptor reach the description it refers to; a write to
  a closed descriptor is lost. \<^verbatim>\<open>perror\<close> and \<^verbatim>\<open>fprintf(stderr, ...)\<close> write to descriptor 2,
  \<^verbatim>\<open>printf\<close> followed by \<^verbatim>\<open>fflush\<close> to descriptor 1. Of a \<^verbatim>\<open>perror\<close> line only the prefix is
  modelled, not the text of the error number.\<close>

definition write_fd :: "'w platform \<Rightarrow> process \<Rightarrow> 'w \<Rightarrow> int \<Rightarrow> string \<Rightarrow> 'w" where
  "write_fd sys p w fd bytes =
     (case fd_lookup (fds p) fd of None \<Rightarrow> w | Some d \<Rightarrow> sys_write sys w d bytes)"

definition perror :: "'w platform \<Rightarrow> process \<Rightarrow> 'w \<Rightarrow> string \<Rightarrow> 'w" where
  "perror sys p w prefix = write_fd sys p w STDERR_FILENO (prefix @ '': '')"

section \<open>Redirection (cmd.c, \<^verbatim>\<open>get_io_flags\<close> and \<^verbatim>\<open>handle_redirection\<close>)\<close>

definition get_io_flags :: "int \<Rightarrow> int \<Rightarrow> oflag set" where
  "get_io_flags io_flags' append_flag =
     (if (io_flags' AND append_flag) \<noteq> 0 then {O_WRONLY, O_CREAT} \<union> {O_APPEND}
      else {O_WRONLY, O_CREAT} \<union> {O_TRUNC})"

text \<open>Input redirection (\<^verbatim>\<open>< file\<close>), the first block of \<^verbatim>\<open>handle_redirection\<close>.\<close>

definition redirect_input ::
  "'w platform \<Rightarrow> simple_command_t \<Rightarrow> process \<Rightarrow> 'w \<Rightarrow> (unit, 'w) outcome" where
  "redirect_input sys cmd p w =
     (case in_word cmd of
        None \<Rightarrow> Returns () p w
      | Some i \<Rightarrow>
          (case expand_variables (PATH_MAX sys) (environ p) (string i) of
             Inl f \<Rightarrow> Faults f w
           | Inr None \<Rightarrow> Returns () p w
           | Inr (Some expanded_in) \<Rightarrow>
               (case fd_open sys (fds p) w expanded_in {O_RDONLY} of
                  (fd_in, t, w') \<Rightarrow>
                    if fd_in = - 1
                    then Exits EXIT_FAILURE (perror sys p w' ''Error opening input file'')
                    else Returns ()
                           (p\<lparr>fds := fd_close (snd (fd_dup2 t fd_in STDIN_FILENO)) fd_in\<rparr>)
                           w')))"

text \<open>Combined redirection (\<^verbatim>\<open>&> file\<close>): the branch taken when \<^verbatim>\<open>out\<close> and \<^verbatim>\<open>err\<close> are
  both present and \<^verbatim>\<open>strcmp\<close> finds their strings equal.\<close>

definition redirect_out_err ::
  "'w platform \<Rightarrow> simple_command_t \<Rightarrow> word_t \<Rightarrow> process \<Rightarrow> 'w \<Rightarrow> (unit, 'w) outcome" where
  "redirect_out_err sys cmd out_word p w =
     (case expand_variables (PATH_MAX sys) (environ p) (string out_word) of
        Inl f \<Rightarrow> Faults f w
      | Inr None \<Rightarrow> Returns () p w
      | Inr (Some expanded_out_err) \<Rightarrow>
          (case fd_open sys (fds p) w expanded_out_err
                  (get_io_flags (io_flags cmd) (IO_OUT_APPEND sys)) of
             (fd_out_err, t, w') \<Rightarrow>
               if fd_out_err = - 1
               then Exits EXIT_FAILURE (perror sys p w' ''Error opening combined output file'')
               else Returns ()
                      (p\<lparr>fds := fd_close
                         (snd (fd_dup2 (snd (fd_dup2 t fd_out_err STDOUT_FILENO))
                                 fd_out_err STDERR_FILENO))
                         fd_out_err\<rparr>)
                      w'))"

text \<open>Output redirection (\<^verbatim>\<open>> file\<close> or \<^verbatim>\<open>>> file\<close>).\<close>

definition redirect_out ::
  "'w platform \<Rightarrow> simple_command_t \<Rightarrow> process \<Rightarrow> 'w \<Rightarrow> (unit, 'w) outcome" where
  "redirect_out sys cmd p w =
     (case out cmd of
        None \<Rightarrow> Returns () p w
      | Some out_word \<Rightarrow>
          (case expand_variables (PATH_MAX sys) (environ p) (string out_word) of
             Inl f \<Rightarrow> Faults f w
           | Inr None \<Rightarrow>
               Exits EXIT_FAILURE (perror sys p w ''Error expanding output file'')
           | Inr (Some expanded_out) \<Rightarrow>
               (case fd_open sys (fds p) w expanded_out
                       (get_io_flags (io_flags cmd) (IO_OUT_APPEND sys)) of
                  (fd_out, t, w') \<Rightarrow>
                    if fd_out = - 1
                    then Exits EXIT_FAILURE (perror sys p w' ''Error opening output file'')
                    else Returns ()
                           (p\<lparr>fds := fd_close (snd (fd_dup2 t fd_out STDOUT_FILENO)) fd_out\<rparr>)
                           w')))"

text \<open>Error redirection (\<^verbatim>\<open>2> file\<close> or \<^verbatim>\<open>2>> file\<close>).\<close>

definition redirect_err ::
  "'w platform \<Rightarrow> simple_command_t \<Rightarrow> process \<Rightarrow> 'w \<Rightarrow> (unit, 'w) outcome" where
  "redirect_err sys cmd p w =
     (case err cmd of
        None \<Rightarrow> Returns () p w
      | Some err_word \<Rightarrow>
          (case expand_variables (PATH_MAX sys) (environ p) (string err_word) of
             Inl f \<Rightarrow> Faults f w
           | Inr None \<Rightarrow> Returns () p w
           | Inr (Some expanded_err) \<Rightarrow>
               (case fd_open sys (fds p) w expanded_err
                       (get_io_flags (io_flags cmd) (IO_ERR_APPEND sys)) of
                  (fd_err, t, w') \<Rightarrow>
                    if fd_err = - 1
                    then Exits EXIT_FAILURE (perror sys p w' ''Error opening error file'')
                    else Returns ()
                           (p\<lparr>fds := fd_close (snd (fd_dup2 t fd_err STDERR_FILENO)) fd_err\<rparr>)
                           w')))"

text \<open>The test \<^verbatim>\<open>cmd->out && cmd->err && strcmp(cmd->out->string, cmd->err->string) == 0\<close>.
  \<^verbatim>\<open>strcmp\<close> reads both strings, so a null string is a fault.\<close>

definition same_out_err :: "simple_command_t \<Rightarrow> fault + bool" where
  "same_out_err cmd =
     (case out cmd of
        None \<Rightarrow> Inr False
      | Some out_word \<Rightarrow>
          (case err cmd of
             None \<Rightarrow> Inr False
           | Some err_word \<Rightarrow>
               (case string out_word of
                  None \<Rightarrow> Inl NullDereference
                | Some s1 \<Rightarrow>
                    (case string err_word of
                       None \<Rightarrow> Inl NullDereference
                     | Some s2 \<Rightarrow> Inr (s1 = s2)))))"

text \<open>The second block of \<^verbatim>\<open>handle_redirection\<close>: the combined case, else output and
  then error on their own.\<close>

definition redirect_output ::
  "'w platform \<Rightarrow> simple_command_t \<Rightarrow> process \<Rightarrow> 'w \<Rightarrow> (unit, 'w) outcome" where
  "redirect_output sys cmd p w =
     (case same_out_err cmd of
        Inl f \<Rightarrow> Faults f w
      | Inr True \<Rightarrow>
          (case out cmd of
             None \<Rightarrow> Returns () p w
           | Some out_word \<Rightarrow> redirect_out_err sys cmd out_word p w)
      | Inr False \<Rightarrow>
          (case redirect_out sys cmd p w of
             Returns u p' w' \<Rightarrow> redirect_err sys cmd p' w'
           | Exits code w' \<Rightarrow> Exits code w'
           | Faults f w' \<Rightarrow> Faults f w'))"

definition handle_redirection ::
  "'w platform \<Rightarrow> simple_command_t option \<Rightarrow> process \<Rightarrow> 'w \<Rightarrow> (unit, 'w) outcome" where
  "handle_redirection sys cmd p w =
     (case cmd of
        None \<Rightarrow> Returns () p w
      | Some c \<Rightarrow>
          (case redirect_input sys c p w of
             Returns u p' w' \<Rightarrow> redirect_output sys c p' w'
           | Exits code w' \<Rightarrow> Exits code w'
           | Faults f w' \<Rightarrow> Faults f w'))"

section \<open>Builtins (cmd.c, \<^verbatim>\<open>shell_cd\<close>, \<^verbatim>\<open>shell_pwd\<close>, \<^verbatim>\<open>shell_exit\<close>)\<close>

text \<open>\<^verbatim>\<open>shell_cd\<close>. After \<^verbatim>\<open>chdir\<close> the code calls \<^verbatim>\<open>free(target_dir)\<close> when
  \<^verbatim>\<open>dir && dir->string\<close>. For a non-empty string \<^verbatim>\<open>target_dir\<close> is the copy that
  \<^verbatim>\<open>remove_quotes\<close> allocated; for the empty string it is the pointer that \<^verbatim>\<open>getenv\<close>
  returned, which \<^verbatim>\<open>malloc\<close> never returned.\<close>

definition shell_cd ::
  "'w platform \<Rightarrow> word_t option \<Rightarrow> process \<Rightarrow> 'w \<Rightarrow> (bool, 'w) outcome" where
  "shell_cd sys dir p w =
     (let given = (case dir of
                     None \<Rightarrow> None
                   | Some d \<Rightarrow> (case string d of
                                 None \<Rightarrow> None
                               | Some s \<Rightarrow> if s \<noteq> [] then Some s else None));
          frees = (case dir of None \<Rightarrow> False | Some d \<Rightarrow> string d \<noteq> None)
      in case (case given of
                 Some s \<Rightarrow>
                   (case remove_quotes (Some s) of
                      None \<Rightarrow> Inl ''cd: Memory allocation failed''
                    | Some target_dir \<Rightarrow> Inr target_dir)
               | None \<Rightarrow>
                   (case getenv (environ p) ''HOME'' of
                      None \<Rightarrow> Inl ''cd: HOME not set''
                    | Some target_dir \<Rightarrow> Inr target_dir)) of
           Inl message \<Rightarrow>
             Returns False p (write_fd sys p w STDERR_FILENO (message @ [CHR 0x0A]))
         | Inr target_dir \<Rightarrow>
             (case sys_chdir sys w (cwd p) target_dir of
                None \<Rightarrow>
                  (let w' = write_fd sys p w STDERR_FILENO
                              (''cd: '' @ target_dir @ '': No such file or directory''
                               @ [CHR 0x0A])
                   in if frees \<and> given = None then Faults InvalidFree w'
                      else Returns False p w')
              | Some dir' \<Rightarrow>
                  if frees \<and> given = None then Faults InvalidFree w
                  else Returns True (p\<lparr>cwd := dir'\<rparr>) w))"

text \<open>\<^verbatim>\<open>getcwd(cwd, sizeof(cwd))\<close> with the 4096-byte buffer of \<^verbatim>\<open>shell_pwd\<close>.\<close>

definition getcwd :: "process \<Rightarrow> string option" where
  "getcwd p = (if length (cwd p) < 4096 then Some (cwd p) else None)"

definition shell_pwd :: "'w platform \<Rightarrow> process \<Rightarrow> 'w \<Rightarrow> 'w" where
  "shell_pwd sys p w =
     (case getcwd p of
        Some dir \<Rightarrow>
          if dir \<noteq> [] then write_fd sys p w STDOUT_FILENO (dir @ [CHR 0x0A])
          else write_fd sys p w STDERR_FILENO (''pwd: unexpected empty path'' @ [CHR 0x0A])
      | None \<Rightarrow>
          (case getcwd p of
             None \<Rightarrow> perror sys p w ''pwd''
           | Some dir \<Rightarrow>
               write_fd sys p w STDERR_FILENO
                 (''pwd: buffer too small to store the full path'' @ [CHR 0x0A])))"

definition shell_exit :: "process \<Rightarrow> 'w \<Rightarrow> (int, 'w) outcome" where
  "shell_exit p w = Exits 0 w"

section \<open>Simple commands (cmd.c, \<^verbatim>\<open>parse_simple\<close>)\<close>

text \<open>\<^verbatim>\<open>strtok_r\<close> of the C library, on the string at the save pointer: it skips leading
  delimiters, returns no token when nothing is left, and else the bytes up to the next
  delimiter; the second component is the string at the new save pointer.\<close>

definition strtok_r :: "string \<Rightarrow> string \<Rightarrow> string option \<times> string" where
  "strtok_r s delim =
     (let s' = dropWhile (\<lambda>c. c \<in> set delim) s
      in if s' = [] then (None, [])
         else (Some (takeWhile (\<lambda>c. c \<notin> set delim) s'),
               drop 1 (dropWhile (\<lambda>c. c \<notin> set delim) s')))"

text \<open>The status a parent reads for a forked copy of the shell that evaluates a subtree
  and then calls \<^verbatim>\<open>exit\<close> with the result. A fault of the child is read as death by
  \<^verbatim>\<open>SIGSEGV\<close>.\<close>

definition wait_child :: "'w platform \<Rightarrow> (int, 'w) outcome \<Rightarrow> wstatus \<times> 'w" where
  "wait_child sys r =
     (case r of
        Returns code p w \<Rightarrow>
          (case sys_signal sys w of None \<Rightarrow> (exit_status code, w) | Some sig \<Rightarrow> (Signaled sig, w))
      | Exits code w \<Rightarrow>
          (case sys_signal sys w of None \<Rightarrow> (exit_status code, w) | Some sig \<Rightarrow> (Signaled sig, w))
      | Faults f w \<Rightarrow> (Signaled SIGSEGV, w))"

text \<open>The assignment branch: \<^verbatim>\<open>strtok_r\<close> twice on a copy of the word, then \<^verbatim>\<open>setenv\<close>.
  The code passes \<^verbatim>\<open>&word_copy\<close> as the save pointer of \<^verbatim>\<open>strtok_r\<close>, so the two calls move
  \<^verbatim>\<open>word_copy\<close> itself, and both ways out of the branch then call \<^verbatim>\<open>free(word_copy)\<close>.\<close>

definition assign_variable :: "string \<Rightarrow> process \<Rightarrow> 'w \<Rightarrow> (int, 'w) outcome" where
  "assign_variable word p w =
     (case strtok_r word ''='' of
        (name, word_copy) \<Rightarrow>
          (case strtok_r word_copy ''='' of
             (val, word_copy') \<Rightarrow>
               (case name of
                  None \<Rightarrow>
                    if points_to_start word word_copy' then Returns (- 1) p w
                    else Faults InvalidFree w
                | Some name' \<Rightarrow>
                    (case val of
                       None \<Rightarrow>
                         if points_to_start word word_copy' then Returns (- 1) p w
                         else Faults InvalidFree w
                     | Some val' \<Rightarrow>
                         (case setenv (environ p) name' val' 1 of
                            (result, env') \<Rightarrow>
                              if points_to_start word word_copy'
                              then Returns result (p\<lparr>environ := env'\<rparr>) w
                              else Faults InvalidFree w)))))"

text \<open>The builtin branch: the descriptors of standard output and standard error are
  duplicated, the redirections applied, the builtin run, and the two descriptors put
  back.\<close>

definition run_builtin ::
  "'w platform \<Rightarrow> simple_command_t \<Rightarrow> string \<Rightarrow> process \<Rightarrow> 'w \<Rightarrow> (int, 'w) outcome" where
  "run_builtin sys s word p w =
     (case fd_dup (fds p) STDOUT_FILENO of
        (saved_stdout, t1) \<Rightarrow>
          (case fd_dup t1 STDERR_FILENO of
             (saved_stderr, t2) \<Rightarrow>
               (case handle_redirection sys (Some s) (p\<lparr>fds := t2\<rparr>) w of
                  Exits code w' \<Rightarrow> Exits code w'
                | Faults f w' \<Rightarrow> Faults f w'
                | Returns u p1 w1 \<Rightarrow>
                    (case (if word = ''cd''
                           then (case shell_cd sys (params s) p1 w1 of
                                   Returns ok p2 w2 \<Rightarrow> Returns (if ok then 0 else 1) p2 w2
                                 | Exits code w' \<Rightarrow> Exits code w'
                                 | Faults f w' \<Rightarrow> Faults f w')
                           else if word = ''pwd'' then Returns 0 p1 (shell_pwd sys p1 w1)
                           else if word = ''exit'' \<or> word = ''quit'' then shell_exit p1 w1
                           else Returns 0 p1 w1) of
                       Exits code w' \<Rightarrow> Exits code w'
                     | Faults f w' \<Rightarrow> Faults f w'
                     | Returns result p2 w2 \<Rightarrow>
                         Returns result
                           (p2\<lparr>fds :=
                               fd_close
                                 (fd_close
                                    (snd (fd_dup2
                                            (snd (fd_dup2 (fds p2) saved_stdout STDOUT_FILENO))
                                            saved_stderr STDERR_FILENO))
                                    saved_stdout)
                                 saved_stderr\<rparr>)
                           w2))))"

text \<open>The external branch. The child applies the redirections and calls \<^verbatim>\<open>execvp\<close>; the
  parent waits and reads the status.\<close>

definition run_external ::
  "'w platform \<Rightarrow> simple_command_t \<Rightarrow> string \<Rightarrow> process \<Rightarrow> 'w \<Rightarrow> (int, 'w) outcome" where
  "run_external sys s word p w =
     (case sys_fork sys w of
        (Some e, w') \<Rightarrow> Returns 1 p (perror sys p w' ''fork'')
      | (None, w') \<Rightarrow>
          (case (case handle_redirection sys (Some s) p w' of
                   Exits code w1 \<Rightarrow> (exit_status code, w1)
                 | Faults f w1 \<Rightarrow> (Signaled SIGSEGV, w1)
                 | Returns u p1 w1 \<Rightarrow>
                     (case sys_execvp sys w1 p1 word (get_argv sys (environ p1) s) of
                        Some (st, w2) \<Rightarrow> (st, w2)
                      | None \<Rightarrow>
                          (exit_status EXIT_FAILURE,
                           write_fd sys p1 w1 STDERR_FILENO
                             (''Execution failed for '' @ [CHR 0x27] @ word @ [CHR 0x27, CHR 0x0A])))) of
             (status, w3) \<Rightarrow>
               Returns (if WIFEXITED status then WEXITSTATUS status else 1) p w3))"

definition parse_simple ::
  "'w platform \<Rightarrow> simple_command_t option \<Rightarrow> int \<Rightarrow> command_t \<Rightarrow> process \<Rightarrow> 'w
     \<Rightarrow> (int, 'w) outcome" where
  "parse_simple sys s level father p w =
     (case s of
        None \<Rightarrow> Returns (- 1) p w
      | Some sc \<Rightarrow>
          (case verb sc of
             None \<Rightarrow> Returns (- 1) p w
           | Some v \<Rightarrow>
               (case string v of
                  None \<Rightarrow> Returns (- 1) p w
                | Some str \<Rightarrow>
                    (let word = get_word sys (environ p) v
                     in if CHR ''='' \<in> set word then assign_variable word p w
                        else if word = ''cd'' \<or> word = ''pwd'' \<or> word = ''exit'' \<or> word = ''quit''
                        then run_builtin sys sc word p w
                        else run_external sys sc word p w))))"

section \<open>Composite commands (cmd.c, \<^verbatim>\<open>run_in_parallel\<close>, \<^verbatim>\<open>run_on_pipe\<close>, \<^verbatim>\<open>parse_command\<close>)\<close>

text \<open>The two children of a parallel or a pipe node run side by side. The model runs
  the first to its end and then the second: one of the admissible schedules. What the node
  returns depends only on the results of \<^verbatim>\<open>waitpid\<close> and the statuses it reads.\<close>

text \<open>\<^verbatim>\<open>pipe(pipefd)\<close>: two new descriptors, the read end first.\<close>

definition fd_pipe ::
  "'w platform \<Rightarrow> fd_table \<Rightarrow> 'w \<Rightarrow> (errno + int \<times> int) \<times> fd_table \<times> 'w" where
  "fd_pipe sys t w =
     (case sys_pipe sys w of
        (Inl e, w') \<Rightarrow> (Inl e, t, w')
      | (Inr (rd, wr), w') \<Rightarrow>
          (let fd0 = lowest_free t;
               t0 = fd_store t fd0 (Some rd);
               fd1 = lowest_free t0
           in (Inr (int fd0, int fd1), fd_store t0 fd1 (Some wr), w')))"

text \<open>\<^verbatim>\<open>run_in_parallel\<close> and \<^verbatim>\<open>run_on_pipe\<close> call \<^verbatim>\<open>parse_command\<close> on the two subtrees
  they are given. Here they take these two calls as the arguments \<open>child1\<close> and \<open>child2\<close>
  (\<open>parse_command sys cmd1\<close> and \<open>parse_command sys cmd2\<close>), so that \<open>parse_command\<close> is
  a primitive recursion over the tree.\<close>

type_synonym 'w evaluation = "int \<Rightarrow> command_t \<Rightarrow> process \<Rightarrow> 'w \<Rightarrow> (int, 'w) outcome"

definition run_in_parallel ::
  "'w platform \<Rightarrow> 'w evaluation \<Rightarrow> 'w evaluation \<Rightarrow> command_t \<Rightarrow> command_t \<Rightarrow> int
     \<Rightarrow> command_t \<Rightarrow> process \<Rightarrow> 'w \<Rightarrow> bool \<times> process \<times> 'w" where
  "run_in_parallel sys child1 child2 cmd1 cmd2 level father p w =
     (if cmd1 = NULL_command \<or> cmd2 = NULL_command then (False, p, w)
      else (case sys_fork sys w of
        (Some e, w1) \<Rightarrow> (False, p, perror sys p w1 ''fork (cmd1)'')
      | (None, w1) \<Rightarrow>
          (case wait_child sys (child1 (level + 1) father p w1) of
             (status1, w2) \<Rightarrow>
               (case sys_fork sys w2 of
                  (Some e, w3) \<Rightarrow> (False, p, perror sys p w3 ''fork (cmd2)'')
                | (None, w3) \<Rightarrow>
                    (case wait_child sys (child2 (level + 1) father p w3) of
                       (status2, w4) \<Rightarrow>
                         (case sys_waitpid sys w4 of
                            (False, w5) \<Rightarrow> (False, p, perror sys p w5 ''waitpid'')
                          | (True, w5) \<Rightarrow>
                              (case sys_waitpid sys w5 of
                                 (False, w6) \<Rightarrow> (False, p, perror sys p w6 ''waitpid'')
                               | (True, w6) \<Rightarrow>
                                   (WIFEXITED status1 \<and> WIFEXITED status2, p, w6))))))))"

text \<open>The two children of \<^verbatim>\<open>run_on_pipe\<close>, from \<^verbatim>\<open>fork\<close> to \<^verbatim>\<open>exit\<close>: \<open>t\<close> is the descriptor
  table after \<^verbatim>\<open>pipe\<close>.\<close>

definition pipe_child1 ::
  "'w platform \<Rightarrow> 'w evaluation \<Rightarrow> fd_table \<Rightarrow> int \<Rightarrow> int \<Rightarrow> int \<Rightarrow> command_t \<Rightarrow> process
     \<Rightarrow> 'w \<Rightarrow> (int, 'w) outcome" where
  "pipe_child1 sys child1 t pipefd0 pipefd1 level father p w =
     (case fd_dup2 (fd_close t pipefd0) pipefd1 STDOUT_FILENO of
        (r, t1) \<Rightarrow>
          if r = - 1
          then Exits EXIT_FAILURE (perror sys (p\<lparr>fds := t1\<rparr>) w ''dup2 (cmd1)'')
          else child1 (level + 1) father (p\<lparr>fds := fd_close t1 pipefd1\<rparr>) w)"

definition pipe_child2 ::
  "'w platform \<Rightarrow> 'w evaluation \<Rightarrow> fd_table \<Rightarrow> int \<Rightarrow> int \<Rightarrow> int \<Rightarrow> command_t \<Rightarrow> process
     \<Rightarrow> 'w \<Rightarrow> (int, 'w) outcome" where
  "pipe_child2 sys child2 t pipefd0 pipefd1 level father p w =
     (case fd_dup2 (fd_close t pipefd1) pipefd0 STDIN_FILENO of
        (r, t1) \<Rightarrow>
          if r = - 1
          then Exits EXIT_FAILURE (perror sys (p\<lparr>fds := t1\<rparr>) w ''dup2 (cmd2)'')
          else child2 (level + 1) father (p\<lparr>fds := fd_close t1 pipefd0\<rparr>) w)"

definition run_on_pipe ::
  "'w platform \<Rightarrow> 'w evaluation \<Rightarrow> 'w evaluation \<Rightarrow> command_t \<Rightarrow> command_t \<Rightarrow> int
     \<Rightarrow> command_t \<Rightarrow> process \<Rightarrow> 'w \<Rightarrow> bool \<times> process \<times> 'w" where
  "run_on_pipe sys child1 child2 cmd1 cmd2 level father p w =
     (case fd_pipe sys (fds p) w of
        (Inl e, t, w0) \<Rightarrow>
          (False, p,
           if e = EMFILE \<or> e = ENFILE then perror sys p w0 ''pipe (resource-related error)''
           else perror sys p w0 ''pipe (error)'')
      | (Inr (pipefd0, pipefd1), t, w0) \<Rightarrow>
          (case sys_fork sys w0 of
             (Some e, w1) \<Rightarrow>
               if e = EAGAIN \<or> e = ENOMEM
               then (False, p\<lparr>fds := t\<rparr>,
                     perror sys (p\<lparr>fds := t\<rparr>) w1 ''fork (resource-related error)'')
               else (False, p\<lparr>fds := fd_close (fd_close t pipefd0) pipefd1\<rparr>,
                     perror sys (p\<lparr>fds := t\<rparr>) w1 ''fork (error)'')
           | (None, w1) \<Rightarrow>
               (case wait_child sys
                       (pipe_child1 sys child1 t pipefd0 pipefd1 level father p w1) of
                  (status1, w2) \<Rightarrow>
                    (case sys_fork sys w2 of
                       (Some e, w3) \<Rightarrow>
                         (False, p\<lparr>fds := fd_close (fd_close t pipefd0) pipefd1\<rparr>,
                          perror sys (p\<lparr>fds := fd_close (fd_close t pipefd0) pipefd1\<rparr>) w3
                            ''Forking cmd2 failed'')
                     | (None, w3) \<Rightarrow>
                         (case wait_child sys
                                 (pipe_child2 sys child2 t pipefd0 pipefd1 level father p w3) of
                            (status2, w4) \<Rightarrow>
                              (WIFEXITED status2 \<and> WEXITSTATUS status2 = 0,
                               p\<lparr>fds := fd_close (fd_close t pipefd0) pipefd1\<rparr>, w4))))))"

primrec parse_command ::
  "'w platform \<Rightarrow> command_t \<Rightarrow> int \<Rightarrow> command_t \<Rightarrow> process \<Rightarrow> 'w \<Rightarrow> (int, 'w) outcome"
where
  "parse_command sys NULL_command level father p w = Returns (- 1) p w"
| "parse_command sys (Command op' scmd cmd1 cmd2) level father p w =
     (if father = NULL_command \<and> level \<noteq> 0 then Returns (- 1) p w
      else (case op' of
        OP_NONE \<Rightarrow> parse_simple sys scmd level father p w
      | OP_PARALLEL \<Rightarrow>
          (case run_in_parallel sys (parse_command sys cmd1) (parse_command sys cmd2)
                  cmd1 cmd2 level (Command op' scmd cmd1 cmd2) p w of
             (ok, p', w') \<Rightarrow> Returns (if ok then 0 else - 1) p' w')
      | OP_SEQUENTIAL \<Rightarrow>
          (case parse_command sys cmd1 (level + 1) (Command op' scmd cmd1 cmd2) p w of
             Returns r1 p1 w1 \<Rightarrow>
               parse_command sys cmd2 (level + 1) (Command op' scmd cmd1 cmd2) p1 w1
           | Exits code w1 \<Rightarrow> Exits code w1
           | Faults f w1 \<Rightarrow> Faults f w1)
      | OP_CONDITIONAL_ZERO \<Rightarrow>
          (case parse_command sys cmd1 (level + 1) (Command op' scmd cmd1 cmd2) p w of
             Returns r1 p1 w1 \<Rightarrow>
               if r1 = 0
               then parse_command sys cmd2 (level + 1) (Command op' scmd cmd1 cmd2) p1 w1
               else Returns 0 p1 w1
           | Exits code w1 \<Rightarrow> Exits code w1
           | Faults f w1 \<Rightarrow> Faults f w1)
      | OP_CONDITIONAL_NZERO \<Rightarrow>
          (case parse_command sys cmd1 (level + 1) (Command op' scmd cmd1 cmd2) p w of
             Returns r1 p1 w1 \<Rightarrow>
               if r1 \<noteq> 0
               then parse_command sys cmd2 (level + 1) (Command op' scmd cmd1 cmd2) p1 w1
               else Returns 0 p1 w1
           | Exits code w1 \<Rightarrow> Exits code w1
           | Faults f w1 \<Rightarrow> Faults f w1)
      | OP_PIPE \<Rightarrow>
          (case run_on_pipe sys (parse_command sys cmd1) (parse_command sys cmd2)
                  cmd1 cmd2 level (Command op' scmd cmd1 cmd2) p w of
             (ok, p', w') \<Rightarrow>
               if ok then Returns 0 p' w'
               else Returns (- 1) p'
                      (write_fd sys p' w' STDERR_FILENO
                         (''Error: Pipe execution failed'' @ [CHR 0x0A])))
      | OP_DUMMY \<Rightarrow> Returns (SHELL_EXIT sys) p w))"

section \<open>The expansion as the specification words it\<close>

text \<open>Scan left to right; on \<^verbatim>\<open>$\<close> take the maximal run of alphanumeric or underscore
  characters as a variable name and substitute its value, the empty string if it is
  unset; copy every other character.\<close>

definition name_char :: "char \<Rightarrow> bool" where
  "name_char c = (isalnum c \<or> c = CHR ''_'')"

function expand_spec :: "environment \<Rightarrow> string \<Rightarrow> string" where
  "expand_spec env [] = []"
| "expand_spec env (c # cs) =
     (if c = CHR ''$''
      then (case env (takeWhile name_char cs) of None \<Rightarrow> [] | Some v \<Rightarrow> v)
           @ expand_spec env (dropWhile name_char cs)
      else c # expand_spec env cs)"
  by pat_completeness auto
termination
  by (relation "measure (\<lambda>(env, s). length s)")
    (auto simp: le_imp_less_Suc length_dropWhile_le)

text \<open>The variable names that a scan of the input meets, in order.\<close>

function var_names :: "string \<Rightarrow> string list" where
  "var_names [] = []"
| "var_names (c # cs) =
     (if c = CHR ''$'' then takeWhile name_char cs # var_names (dropWhile name_char cs)
      else var_names cs)"
  by pat_completeness auto
termination
  by (relation "measure length") (auto simp: le_imp_less_Suc length_dropWhile_le)

section \<open>A concrete platform\<close>

text \<open>A small platform on which the general statements are instantiated. Its world is
  the list of what has happened so far. A word is its string; \<^verbatim>\<open>true\<close> and \<^verbatim>\<open>false\<close> are the
  only programs; every path but \<^verbatim>\<open>/missing/file\<close> can be opened and \<^verbatim>\<open>/tmp\<close> is the only
  directory to change to; \<^verbatim>\<open>fork\<close>, \<^verbatim>\<open>pipe\<close> and \<^verbatim>\<open>waitpid\<close> succeed and no signal arrives.
  The shell starts with the terminal (description 0) on descriptors 0, 1 and 2.\<close>

datatype event =
  Opened string "oflag set"
  | Piped
  | Ran string "string list" "nat option" "nat option" "nat option"
  | Wrote nat string

definition word_string :: "word_t \<Rightarrow> string" where
  "word_string v = (case string v of None \<Rightarrow> [] | Some s \<Rightarrow> s)"

definition demo_argv :: "simple_command_t \<Rightarrow> string list" where
  "demo_argv s =
     (case verb s of None \<Rightarrow> [] | Some v \<Rightarrow> [word_string v])
     @ (case params s of None \<Rightarrow> [] | Some v \<Rightarrow> [word_string v])"

definition demo_open :: "event list \<Rightarrow> string \<Rightarrow> oflag set \<Rightarrow> nat option \<times> event list" where
  "demo_open w path flags =
     (if path = ''/missing/file'' then (None, w)
      else (Some (Suc (length w)), w @ [Opened path flags]))"

definition demo_execvp ::
  "event list \<Rightarrow> process \<Rightarrow> string \<Rightarrow> string list \<Rightarrow> (wstatus \<times> event list) option" where
  "demo_execvp w p file argv =
     (let ran = Ran file argv (fd_lookup (fds p) 0) (fd_lookup (fds p) 1) (fd_lookup (fds p) 2)
      in if file = ''true'' then Some (Exited 0, w @ [ran])
         else if file = ''false'' then Some (Exited 1, w @ [ran])
         else None)"

definition demo :: "event list platform" where
  "demo =
     \<lparr>PATH_MAX = 4096, SHELL_EXIT = - 100, IO_OUT_APPEND = 1, IO_ERR_APPEND = 2,
      get_word = (\<lambda>env v. word_string v),
      get_argv = (\<lambda>env s. demo_argv s),
      sys_open = demo_open,
      sys_pipe = (\<lambda>w. (Inr (Suc (length w), Suc (Suc (length w))), w @ [Piped])),
      sys_fork = (\<lambda>w. (None, w)),
      sys_chdir = (\<lambda>w dir target. if target = ''/tmp'' then Some ''/tmp'' else None),
      sys_execvp = demo_execvp,
      sys_write = (\<lambda>w d bytes. w @ [Wrote d bytes]),
      sys_signal = (\<lambda>w. None),
      sys_waitpid = (\<lambda>w. (True, w))\<rparr>"

text \<open>The same platform in a shell started with \<^verbatim>\<open>SIGCHLD\<close> ignored: \<^verbatim>\<open>waitpid\<close> fails.\<close>

definition demo_sigchld_ignored :: "event list platform" where
  "demo_sigchld_ignored = demo\<lparr>sys_waitpid := (\<lambda>w. (False, w))\<rparr>"

definition shell0 :: process where
  "shell0 = \<lparr>environ = Map.empty, fds = [Some 0, Some 0, Some 0], cwd = ''/''\<rparr>"

text \<open>The simple command that has only a verb, and the leaf of the tree that holds a
  simple command.\<close>

definition simple :: "string \<Rightarrow> simple_command_t" where
  "simple v =
     \<lparr>verb = Some \<lparr>string = Some v\<rparr>, params = None, in_word = None, out = None, err = None,
      io_flags = 0\<rparr>"

definition leaf :: "simple_command_t \<Rightarrow> command_t" where
  "leaf s = Command OP_NONE (Some s) NULL_command NULL_command"

text \<open>Trees and simple commands that the instances below evaluate.\<close>

definition false_and_true :: command_t where
  "false_and_true =
     Command OP_CONDITIONAL_ZERO None (leaf (simple ''false'')) (leaf (simple ''true''))"



definition false_par_true :: command_t where
  "false_par_true = Command OP_PARALLEL None (leaf (simple ''false'')) (leaf (simple ''true''))"

definition pwd_par_pwd :: command_t where
  "pwd_par_pwd = Command OP_PARALLEL None (leaf (simple ''pwd'')) (leaf (simple ''pwd''))"

definition out_err_by_variables :: simple_command_t where
  "out_err_by_variables =
     (simple ''true'')\<lparr>out := Some \<lparr>string = Some ''$A''\<rparr>, err := Some \<lparr>string = Some ''$B''\<rparr>\<rparr>"

definition out_err_same :: simple_command_t where
  "out_err_same =
     (simple ''true'')\<lparr>out := Some \<lparr>string = Some ''$A''\<rparr>, err := Some \<lparr>string = Some ''$A''\<rparr>\<rparr>"

definition pwd_to_missing_file :: simple_command_t where
  "pwd_to_missing_file = (simple ''pwd'')\<lparr>out := Some \<lparr>string = Some ''/missing/file''\<rparr>\<rparr>"

definition pwd_from_file :: simple_command_t where
  "pwd_from_file = (simple ''pwd'')\<lparr>in_word := Some \<lparr>string = Some ''in.txt''\<rparr>\<rparr>"

section \<open>Quote stripping\<close>

lemma remove_quotes_loop_filter:
  "remove_quotes_loop s acc = acc @ filter (\<lambda>c. c \<noteq> CHR 0x27 \<and> c \<noteq> CHR 0x22) s"
  by (induction s arbitrary: acc) auto

text \<open>C10. Quote stripping is idempotent and does not expand: for every non-null input,
  \<open>remove_quotes\<close> applied twice gives what it gives applied once, its result holds neither
  a single quote (byte 0x27) nor a double quote (byte 0x22), and is at most as long as the
  input.\<close>

theorem remove_quotes_idempotent_nonexpanding:
  "remove_quotes (remove_quotes (Some s)) = remove_quotes (Some s)
   \<and> (\<exists>r. remove_quotes (Some s) = Some r
          \<and> CHR 0x27 \<notin> set r \<and> CHR 0x22 \<notin> set r \<and> length r \<le> length s)"
  by (simp add: remove_quotes_def remove_quotes_loop_filter)

section \<open>Variable expansion\<close>

lemma scan_var_name_takeWhile:
  "scan_var_name ptr var_name = (var_name @ takeWhile name_char ptr, dropWhile name_char ptr)"
  by (induction ptr arbitrary: var_name) (auto simp: name_char_def)

text \<open>The loop of \<open>expand_variables\<close> computes the expansion of the specification as long
  as every variable name fits \<^verbatim>\<open>var_name\<close> with its terminator and the result fits the
  output buffer with its terminator; otherwise it runs over a buffer.\<close>

lemma expand_loop_spec:
  "expand_loop path_max env s acc =
     (if list_all (\<lambda>n. length n < 128) (var_names s)
         \<and> length acc + length (expand_spec env s) < path_max
      then Inr (acc @ expand_spec env s) else Inl BufferOverrun)"
proof (induction path_max env s acc rule: expand_loop.induct)
  case (1 path_max env acc)
  then show ?case by simp
next
  case (2 path_max env c ptr acc)
  show ?case
  proof (cases "c = CHR ''$''")
    case True
    note dollar = this
    let ?n = "takeWhile name_char ptr" and ?r = "dropWhile name_char ptr"
    have scan: "scan_var_name ptr [] = (?n, ?r)" by (simp add: scan_var_name_takeWhile)
    show ?thesis
    proof (cases "128 \<le> length ?n")
      case True
      then show ?thesis using dollar scan by simp
    next
      case False
      note short = this
      show ?thesis
      proof (cases "env ?n")
        case None
        then show ?thesis
          using dollar scan short "2.IH"(1) [OF dollar scan [symmetric] short]
          by (simp add: getenv_def)
      next
        case (Some v)
        then have g: "getenv env ?n = Some v" by (simp add: getenv_def)
        show ?thesis
        proof (cases "length acc + length v < path_max")
          case True
          then show ?thesis
            using dollar scan short Some "2.IH"(2) [OF dollar scan [symmetric] short g True]
            by (simp add: getenv_def add.assoc)
        next
          case False
          then show ?thesis using dollar scan short Some by (simp add: getenv_def)
        qed
      qed
    qed
  next
    case False
    then show ?thesis using "2.IH"(3) by (cases "length acc < path_max") auto
  qed
qed

lemma expand_variables_refines:
  "list_all (\<lambda>n. length n < 128) (var_names s) \<Longrightarrow> length (expand_spec env s) < path_max
   \<Longrightarrow> expand_variables path_max env (Some s) = Inr (Some (expand_spec env s))"
  by (simp add: expand_variables_def expand_loop_spec)

text \<open>C8. For every input string the expansion should replace each \<^verbatim>\<open>$\<close> and the maximal
  run of alphanumeric or underscore characters after it by the value of that variable
  (nothing when it is unset) and copy every other character. The code does so only while
  the names and the result fit its buffers (\<open>expand_variables_refines\<close>): on \<^verbatim>\<open>$\<close> followed
  by 200 letters the inner loop stores 200 bytes into the 128 bytes of \<^verbatim>\<open>var_name\<close>, 72 of
  them past the end of the array, where the specification gives the empty string.\<close>

theorem expand_variables_long_name_overrun:
  "expand_variables (PATH_MAX demo) Map.empty (Some (CHR ''$'' # replicate 200 (CHR ''A'')))
     = Inl BufferOverrun
   \<and> scan_var_name (replicate 200 (CHR ''A'')) [] = (replicate 200 (CHR ''A''), [])
   \<and> expand_spec Map.empty (CHR ''$'' # replicate 200 (CHR ''A'')) = []"
  by (simp add: expand_variables_def expand_loop_spec scan_var_name_takeWhile name_char_def
      isalnum_def)

section \<open>Evaluation on the concrete platform\<close>

lemmas demo_simps =
  demo_def shell0_def simple_def leaf_def word_string_def demo_argv_def demo_open_def
  demo_execvp_def parse_simple_def run_external_def run_builtin_def assign_variable_def
  handle_redirection_def redirect_input_def redirect_output_def redirect_out_def
  redirect_err_def redirect_out_err_def same_out_err_def get_io_flags_def
  fd_open_def fd_dup_def fd_dup2_def fd_close_def fd_lookup_def fd_store_def fd_pipe_def
  write_fd_def perror_def wait_child_def exit_status_def WIFEXITED_def WEXITSTATUS_def
  EXIT_FAILURE_def STDIN_FILENO_def STDOUT_FILENO_def STDERR_FILENO_def SIGSEGV_def
  run_in_parallel_def run_on_pipe_def pipe_child1_def pipe_child2_def
  shell_cd_def shell_pwd_def shell_exit_def getcwd_def strtok_r_def setenv_def getenv_def
  expand_variables_def scan_var_name_takeWhile name_char_def isalnum_def Let_def
  insert_commute points_to_start_def

section \<open>Conditional execution\<close>

text \<open>C1. For every AND node: if the left subtree yields status 0, the right subtree is
  evaluated, from the state the left one leaves, and its outcome is the node's; if the left
  subtree yields a nonzero status, the right subtree is not evaluated (process and world
  are as the left subtree leaves them). In that second case the node should return the
  left status; the code returns 0.\<close>

theorem and_node:
  assumes "\<not> (father = NULL_command \<and> level \<noteq> 0)"
    and "parse_command sys cmd1 (level + 1) (Command OP_CONDITIONAL_ZERO scmd cmd1 cmd2) p w
           = Returns r p1 w1"
  shows "parse_command sys (Command OP_CONDITIONAL_ZERO scmd cmd1 cmd2) level father p w
           = (if r = 0
              then parse_command sys cmd2 (level + 1)
                     (Command OP_CONDITIONAL_ZERO scmd cmd1 cmd2) p1 w1
              else Returns 0 p1 w1)"
proof (cases "father = NULL_command")
  case True
  then have "level = 0" using assms(1) by simp
  then show ?thesis using True assms(2) by simp
next
  case False
  then show ?thesis using assms(2) by simp
qed

text \<open>\<^verbatim>\<open>false && true\<close> at the top level: the left command returns 1, the node returns 0,
  and only \<^verbatim>\<open>false\<close> has run.\<close>

theorem and_node_witness:
  "parse_command demo (leaf (simple ''false'')) 1 false_and_true shell0 []
     = Returns 1 shell0 [Ran ''false'' [''false''] (Some 0) (Some 0) (Some 0)]
   \<and> parse_command demo false_and_true 0 NULL_command shell0 []
     = Returns 0 shell0 [Ran ''false'' [''false''] (Some 0) (Some 0) (Some 0)]"
proof -
  let ?node =
    "Command OP_CONDITIONAL_ZERO None (leaf (simple ''false'')) (leaf (simple ''true''))"
  have left: "parse_command demo (leaf (simple ''false'')) (0 + 1) ?node shell0 []
     = Returns 1 shell0 [Ran ''false'' [''false''] (Some 0) (Some 0) (Some 0)]"
    by (simp add: demo_simps)
  have guard: "\<not> (NULL_command = NULL_command \<and> (0::int) \<noteq> 0)" by simp
  show ?thesis using and_node [OF guard left] left by (simp add: false_and_true_def)
qed

section \<open>Parallel and pipe nodes\<close>

text \<open>C7, as amended. For every PARALLEL node whose two children are forked and for
  which both \<^verbatim>\<open>waitpid\<close> calls succeed, the evaluator returns success (0) if and only if
  both children terminated normally, by exit and not by a signal, and failure (-1)
  otherwise; the exit codes of the children do not enter the result. When a \<^verbatim>\<open>waitpid\<close>
  call fails, the evaluator reports it and returns failure (-1), however the children
  ended.\<close>

theorem parallel_node:
  assumes "\<not> (father = NULL_command \<and> level \<noteq> 0)"
    and "cmd1 \<noteq> NULL_command" and "cmd2 \<noteq> NULL_command"
    and "sys_fork sys w = (None, w1)"
    and "wait_child sys
           (parse_command sys cmd1 (level + 1) (Command OP_PARALLEL scmd cmd1 cmd2) p w1)
           = (status1, w2)"
    and "sys_fork sys w2 = (None, w3)"
    and "wait_child sys
           (parse_command sys cmd2 (level + 1) (Command OP_PARALLEL scmd cmd1 cmd2) p w3)
           = (status2, w4)"
    and "sys_waitpid sys w4 = (ok1, w5)"
    and "sys_waitpid sys w5 = (ok2, w6)"
  shows "parse_command sys (Command OP_PARALLEL scmd cmd1 cmd2) level father p w
           = (if ok1 \<and> ok2
              then Returns (if WIFEXITED status1 \<and> WIFEXITED status2 then 0 else - 1) p w6
              else Returns (- 1) p (perror sys p (if ok1 then w6 else w5) ''waitpid''))"
proof (cases "father = NULL_command")
  case True
  then have "level = 0" using assms(1) by simp
  then show ?thesis using True assms(2-)
    by (cases ok1; cases ok2) (simp_all add: run_in_parallel_def)
next
  case False
  then show ?thesis using assms(2-)
    by (cases ok1; cases ok2) (simp_all add: run_in_parallel_def)
qed

text \<open>\<^verbatim>\<open>false & true\<close>: the first child exits with status 1, the second with 0, both
  \<^verbatim>\<open>waitpid\<close> calls succeed, and the node returns 0.\<close>

theorem parallel_node_witness:
  "parse_command demo false_par_true 0 NULL_command shell0 []
     = Returns 0 shell0
         [Ran ''false'' [''false''] (Some 0) (Some 0) (Some 0),
          Ran ''true'' [''true''] (Some 0) (Some 0) (Some 0)]"
proof -
  let ?node = "Command OP_PARALLEL None (leaf (simple ''false'')) (leaf (simple ''true''))"
  let ?w2 = "[Ran ''false'' [''false''] (Some 0) (Some 0) (Some 0)]"
  let ?w4 = "[Ran ''false'' [''false''] (Some 0) (Some 0) (Some 0),
              Ran ''true'' [''true''] (Some 0) (Some 0) (Some 0)]"
  have guard: "\<not> (NULL_command = NULL_command \<and> (0::int) \<noteq> 0)" by simp
  have n1: "leaf (simple ''false'') \<noteq> NULL_command"
    and n2: "leaf (simple ''true'') \<noteq> NULL_command"
    by (simp_all add: leaf_def)
  have fork1: "sys_fork demo [] = (None, [])" by (simp add: demo_def)
  have c1: "wait_child demo (parse_command demo (leaf (simple ''false'')) (0 + 1) ?node shell0 [])
            = (Exited 1, ?w2)"
    by (simp add: demo_simps)
  have fork2: "sys_fork demo ?w2 = (None, ?w2)" by (simp add: demo_def)
  have c2: "wait_child demo (parse_command demo (leaf (simple ''true'')) (0 + 1) ?node shell0 ?w2)
            = (Exited 0, ?w4)"
    by (simp add: demo_simps)
  have wait: "sys_waitpid demo ?w4 = (True, ?w4)" by (simp add: demo_def)
  show ?thesis
    using parallel_node [OF guard n1 n2 fork1 c1 fork2 c2 wait wait]
    by (simp add: false_par_true_def WIFEXITED_def)
qed

text \<open>C7 as stated fails on \<^verbatim>\<open>pwd & pwd\<close> in a shell started with \<^verbatim>\<open>SIGCHLD\<close> ignored:
  both children print the directory and exit with status 0, \<^verbatim>\<open>waitpid\<close> fails, and the
  node returns -1.\<close>

theorem parallel_node_counterexample:
  "wait_child demo_sigchld_ignored
     (parse_command demo_sigchld_ignored (leaf (simple ''pwd'')) 1 pwd_par_pwd shell0 [])
     = (Exited 0, [Wrote 0 (''/'' @ [CHR 0x0A])])
   \<and> wait_child demo_sigchld_ignored
     (parse_command demo_sigchld_ignored (leaf (simple ''pwd'')) 1 pwd_par_pwd shell0
        [Wrote 0 (''/'' @ [CHR 0x0A])])
     = (Exited 0, [Wrote 0 (''/'' @ [CHR 0x0A]), Wrote 0 (''/'' @ [CHR 0x0A])])
   \<and> WIFEXITED (Exited 0)
   \<and> parse_command demo_sigchld_ignored pwd_par_pwd 0 NULL_command shell0 []
     = Returns (- 1) shell0
         [Wrote 0 (''/'' @ [CHR 0x0A]), Wrote 0 (''/'' @ [CHR 0x0A]), Wrote 0 ''waitpid: '']"
  by (simp add: pwd_par_pwd_def demo_sigchld_ignored_def demo_simps)




section \<open>File descriptors and redirection\<close>

lemma fd_lookup_store:
  "fd_lookup (fd_store t i d) fd = (if fd = int i then d else fd_lookup t fd)"
  by (auto simp: fd_lookup_def fd_store_def nth_append nth_list_update)

lemma lowest_free_None:
  "lowest_free t \<le> length t \<and> (lowest_free t < length t \<longrightarrow> t ! lowest_free t = None)"
  by (induction t rule: lowest_free.induct) auto

lemma lowest_free_unused: "fd_lookup t (int (lowest_free t)) = None"
  using lowest_free_None [of t] by (simp add: fd_lookup_def)

lemma fd_lookup_Some_nonneg: "fd_lookup t fd = Some d \<Longrightarrow> 0 \<le> fd"
  by (simp add: fd_lookup_def split: if_splits)

lemma fd_lookup_close:
  "fd_lookup (fd_close t fd) fd' = (if fd' = fd then None else fd_lookup t fd')"
proof (cases "fd_lookup t fd")
  case None
  then show ?thesis by (simp add: fd_close_def)
next
  case (Some d)
  then have "0 \<le> fd" by (rule fd_lookup_Some_nonneg)
  then show ?thesis using Some by (auto simp: fd_close_def fd_lookup_store)
qed

lemma fd_lookup_dup2:
  "fd_lookup t oldfd = Some d \<Longrightarrow> 0 \<le> newfd
   \<Longrightarrow> fd_lookup (snd (fd_dup2 t oldfd newfd)) fd
       = (if fd = newfd then Some d else fd_lookup t fd)"
  by (auto simp: fd_dup2_def fd_lookup_store)

text \<open>C4, as amended. For every simple command whose output and error targets are both
  present, with non-null strings, the combined case is taken exactly when the two strings
  are equal as written, before expansion; otherwise output and error are redirected one
  after the other. In the combined case, when the expansion stays inside its buffers, the
  file can be opened and standard output and standard error are open, the file is opened
  once (the world is the one that this single \<^verbatim>\<open>open\<close> leaves) and both descriptors 1 and 2
  refer to the description it returned.\<close>

theorem redirect_output_combined:
  assumes "out cmd = Some out_word" and "err cmd = Some err_word"
    and "string out_word = Some s1" and "string err_word = Some s2"
  shows "redirect_output sys cmd p w =
           (if s1 = s2 then redirect_out_err sys cmd out_word p w
            else (case redirect_out sys cmd p w of
                    Returns u p' w' \<Rightarrow> redirect_err sys cmd p' w'
                  | Exits code w' \<Rightarrow> Exits code w'
                  | Faults f w' \<Rightarrow> Faults f w'))
         \<and> (s1 = s2 \<longrightarrow>
              expand_variables (PATH_MAX sys) (environ p) (Some s1) = Inr (Some path) \<longrightarrow>
              sys_open sys w path (get_io_flags (io_flags cmd) (IO_OUT_APPEND sys))
                = (Some d, w') \<longrightarrow>
              fd_lookup (fds p) STDOUT_FILENO \<noteq> None \<longrightarrow>
              fd_lookup (fds p) STDERR_FILENO \<noteq> None \<longrightarrow>
              (\<exists>p'. redirect_output sys cmd p w = Returns () p' w'
                 \<and> fd_lookup (fds p') STDOUT_FILENO = Some d
                 \<and> fd_lookup (fds p') STDERR_FILENO = Some d
                 \<and> fd_lookup (fds p') STDIN_FILENO = fd_lookup (fds p) STDIN_FILENO
                 \<and> environ p' = environ p \<and> cwd p' = cwd p))"
proof (intro conjI impI)
  show eq: "redirect_output sys cmd p w =
           (if s1 = s2 then redirect_out_err sys cmd out_word p w
            else (case redirect_out sys cmd p w of
                    Returns u p' w' \<Rightarrow> redirect_err sys cmd p' w'
                  | Exits code w' \<Rightarrow> Exits code w'
                  | Faults f w' \<Rightarrow> Faults f w'))"
    using assms by (simp add: redirect_output_def same_out_err_def)
  assume same: "s1 = s2"
    and ex: "expand_variables (PATH_MAX sys) (environ p) (Some s1) = Inr (Some path)"
    and op: "sys_open sys w path (get_io_flags (io_flags cmd) (IO_OUT_APPEND sys))
               = (Some d, w')"
    and o1: "fd_lookup (fds p) STDOUT_FILENO \<noteq> None"
    and o2: "fd_lookup (fds p) STDERR_FILENO \<noteq> None"
  let ?k = "lowest_free (fds p)"
  let ?t = "fd_store (fds p) ?k (Some d)"
  have k1: "int ?k \<noteq> 1" and k2: "int ?k \<noteq> 2"
    using o1 o2 lowest_free_unused [of "fds p"]
    by (auto simp: STDOUT_FILENO_def STDERR_FILENO_def)
  have l0: "fd_lookup ?t (int ?k) = Some d" by (simp add: fd_lookup_store)
  let ?t1 = "snd (fd_dup2 ?t (int ?k) 1)"
  have l1: "\<And>fd. fd_lookup ?t1 fd = (if fd = 1 then Some d else fd_lookup ?t fd)"
    using fd_lookup_dup2 [OF l0, of 1] by simp
  have l1k: "fd_lookup ?t1 (int ?k) = Some d" using l1 [of "int ?k"] k1 l0 by simp
  let ?t2 = "snd (fd_dup2 ?t1 (int ?k) 2)"
  have l2: "\<And>fd. fd_lookup ?t2 fd = (if fd = 2 then Some d else fd_lookup ?t1 fd)"
    using fd_lookup_dup2 [OF l1k, of 2] by simp
  let ?p' = "p\<lparr>fds := fd_close ?t2 (int ?k)\<rparr>"
  have r: "redirect_output sys cmd p w = Returns () ?p' w'"
    using eq same ex op assms(3)
    by (simp add: redirect_out_err_def fd_open_def STDOUT_FILENO_def STDERR_FILENO_def)
  have k0: "fd_lookup (fds ?p') 0 = fd_lookup (fds p) 0"
    using lowest_free_unused [of "fds p"]
    by (auto simp: fd_lookup_close l2 l1 fd_lookup_store)
  have "fd_lookup (fds ?p') 1 = Some d" "fd_lookup (fds ?p') 2 = Some d"
    using k1 k2 by (auto simp: fd_lookup_close l2 l1)
  then show "\<exists>p'. redirect_output sys cmd p w = Returns () p' w'
            \<and> fd_lookup (fds p') STDOUT_FILENO = Some d
            \<and> fd_lookup (fds p') STDERR_FILENO = Some d
            \<and> fd_lookup (fds p') STDIN_FILENO = fd_lookup (fds p) STDIN_FILENO
            \<and> environ p' = environ p \<and> cwd p' = cwd p"
    using r k0
    by (intro exI [of _ ?p']) (simp add: STDIN_FILENO_def STDOUT_FILENO_def STDERR_FILENO_def)
qed

text \<open>Both targets written \<^verbatim>\<open>$A\<close>, with \<^verbatim>\<open>A\<close> set to \<^verbatim>\<open>f\<close>: one \<^verbatim>\<open>open\<close> of \<^verbatim>\<open>f\<close>, and
  descriptors 1 and 2 both refer to its description.\<close>

theorem redirect_output_combined_witness:
  "redirect_output demo out_err_same (shell0\<lparr>environ := [''A'' \<mapsto> ''f'']\<rparr>) []
     = redirect_out_err demo out_err_same \<lparr>string = Some ''$A''\<rparr>
         (shell0\<lparr>environ := [''A'' \<mapsto> ''f'']\<rparr>) []
   \<and> (\<exists>p'. redirect_output demo out_err_same (shell0\<lparr>environ := [''A'' \<mapsto> ''f'']\<rparr>) []
            = Returns () p' [Opened ''f'' {O_WRONLY, O_CREAT, O_TRUNC}]
          \<and> fd_lookup (fds p') STDOUT_FILENO = Some 1
          \<and> fd_lookup (fds p') STDERR_FILENO = Some 1
          \<and> fd_lookup (fds p') STDIN_FILENO = Some 0)"
proof -
  let ?p = "shell0\<lparr>environ := [''A'' \<mapsto> ''f'']\<rparr>"
  have o: "out out_err_same = Some \<lparr>string = Some ''$A''\<rparr>"
    and e: "err out_err_same = Some \<lparr>string = Some ''$A''\<rparr>"
    by (simp_all add: out_err_same_def simple_def)
  have s: "string \<lparr>string = Some ''$A''\<rparr> = Some ''$A''" by simp
  have ex: "expand_variables (PATH_MAX demo) (environ ?p) (Some ''$A'') = Inr (Some ''f'')"
    by (simp add: demo_simps)
  have op: "sys_open demo [] ''f'' (get_io_flags (io_flags out_err_same) (IO_OUT_APPEND demo))
      = (Some 1, [Opened ''f'' {O_WRONLY, O_CREAT, O_TRUNC}])"
    by (simp add: out_err_same_def demo_simps)
  have o1: "fd_lookup (fds ?p) STDOUT_FILENO \<noteq> None"
    and o2: "fd_lookup (fds ?p) STDERR_FILENO \<noteq> None"
    by (simp_all add: demo_simps)
  have i0: "fd_lookup (fds ?p) STDIN_FILENO = Some 0" by (simp add: demo_simps)
  let ?w' = "[Opened ''f'' {O_WRONLY, O_CREAT, O_TRUNC}]"
  note th = redirect_output_combined [OF o e s s, where sys = demo and p = ?p and w = "[]"
        and path = "''f''" and d = 1 and w' = ?w']
  have taken: "redirect_output demo out_err_same ?p []
                = redirect_out_err demo out_err_same \<lparr>string = Some ''$A''\<rparr> ?p []"
    using th [THEN conjunct1] by simp
  obtain p' where "redirect_output demo out_err_same ?p [] = Returns () p' ?w'"
    and "fd_lookup (fds p') STDOUT_FILENO = Some 1"
    and "fd_lookup (fds p') STDERR_FILENO = Some 1"
    and "fd_lookup (fds p') STDIN_FILENO = fd_lookup (fds ?p) STDIN_FILENO"
    using th [THEN conjunct2, rule_format, OF refl ex op o1 o2] by blast
  then show ?thesis using taken i0 by (intro conjI exI [of _ p']) simp_all
qed

text \<open>C4 as stated fails when the targets are \<^verbatim>\<open>$A\<close> and \<^verbatim>\<open>$B\<close> and both variables hold
  \<^verbatim>\<open>f\<close>: the expanded strings are equal, yet \<^verbatim>\<open>f\<close> is opened twice and descriptors 1 and 2
  refer to two descriptions.\<close>

theorem redirect_output_combined_counterexample:
  "expand_variables (PATH_MAX demo) [''A'' \<mapsto> ''f'', ''B'' \<mapsto> ''f''] (Some ''$A'')
     = Inr (Some ''f'')
   \<and> expand_variables (PATH_MAX demo) [''A'' \<mapsto> ''f'', ''B'' \<mapsto> ''f''] (Some ''$B'')
     = Inr (Some ''f'')
   \<and> redirect_output demo out_err_by_variables
       (shell0\<lparr>environ := [''A'' \<mapsto> ''f'', ''B'' \<mapsto> ''f'']\<rparr>) []
     = Returns ()
         (shell0\<lparr>environ := [''A'' \<mapsto> ''f'', ''B'' \<mapsto> ''f''],
                 fds := [Some 0, Some 1, Some 2, None]\<rparr>)
         [Opened ''f'' {O_WRONLY, O_CREAT, O_TRUNC}, Opened ''f'' {O_WRONLY, O_CREAT, O_TRUNC}]"
  by (simp add: out_err_by_variables_def demo_simps)

section \<open>Builtins and their redirections\<close>

text \<open>Each redirection step opens the file on the lowest free descriptor, duplicates it
  onto its target and closes it again: every other open descriptor keeps its
  description.\<close>

lemma redirect_step_keeps:
  assumes "fd_lookup t fd = Some d" and "fd \<noteq> target" and "0 \<le> target"
  shows "fd_lookup
           (fd_close (snd (fd_dup2 (fd_store t (lowest_free t) (Some d'))
                             (int (lowest_free t)) target))
              (int (lowest_free t))) fd = Some d"
proof -
  let ?k = "int (lowest_free t)"
  let ?t = "fd_store t (lowest_free t) (Some d')"
  have k: "fd \<noteq> ?k" using assms(1) lowest_free_unused [of t] by auto
  have l0: "fd_lookup ?t ?k = Some d'" by (simp add: fd_lookup_store)
  show ?thesis
    using k assms by (simp add: fd_lookup_close fd_lookup_dup2 [OF l0 assms(3)] fd_lookup_store)
qed

lemma redirect_input_keeps:
  assumes "redirect_input sys cmd p w = Returns u p' w'"
    and "fd_lookup (fds p) fd = Some d" and "fd \<noteq> 0"
  shows "fd_lookup (fds p') fd = Some d"
  using assms
  by (auto simp: redirect_input_def fd_open_def STDIN_FILENO_def redirect_step_keeps
      split: option.splits sum.splits prod.splits if_splits)

lemma redirect_out_keeps:
  assumes "redirect_out sys cmd p w = Returns u p' w'"
    and "fd_lookup (fds p) fd = Some d" and "fd \<noteq> 1"
  shows "fd_lookup (fds p') fd = Some d"
  using assms
  by (auto simp: redirect_out_def fd_open_def STDOUT_FILENO_def redirect_step_keeps
      split: option.splits sum.splits prod.splits if_splits)

lemma redirect_err_keeps:
  assumes "redirect_err sys cmd p w = Returns u p' w'"
    and "fd_lookup (fds p) fd = Some d" and "fd \<noteq> 2"
  shows "fd_lookup (fds p') fd = Some d"
  using assms
  by (auto simp: redirect_err_def fd_open_def STDERR_FILENO_def redirect_step_keeps
      split: option.splits sum.splits prod.splits if_splits)

lemma redirect_out_err_keeps:
  assumes "redirect_out_err sys cmd ow p w = Returns u p' w'"
    and "fd_lookup (fds p) fd = Some d" and "fd \<noteq> 1" and "fd \<noteq> 2"
  shows "fd_lookup (fds p') fd = Some d"
proof (cases "expand_variables (PATH_MAX sys) (environ p) (string ow)")
  case (Inl f)
  then show ?thesis using assms by (simp add: redirect_out_err_def)
next
  case (Inr x)
  show ?thesis
  proof (cases x)
    case None
    then show ?thesis using assms Inr by (simp add: redirect_out_err_def)
  next
    case (Some path)
    show ?thesis
    proof (cases "sys_open sys w path (get_io_flags (io_flags cmd) (IO_OUT_APPEND sys))")
      case (Pair r w1)
      show ?thesis
      proof (cases r)
        case None
        then show ?thesis using assms Inr Some Pair
          by (simp add: redirect_out_err_def fd_open_def)
      next
        case (Some dn)
        let ?k = "int (lowest_free (fds p))"
        let ?t = "fd_store (fds p) (lowest_free (fds p)) (Some dn)"
        have k: "fd \<noteq> ?k" using assms(2) lowest_free_unused [of "fds p"] by auto
        have l0: "fd_lookup ?t ?k = Some dn" by (simp add: fd_lookup_store)
        have l1: "\<And>x. fd_lookup (snd (fd_dup2 ?t ?k 1)) x
                      = (if x = 1 then Some dn else fd_lookup ?t x)"
          using fd_lookup_dup2 [OF l0, of 1] by simp
        have l1k: "fd_lookup (snd (fd_dup2 ?t ?k 1)) ?k = Some dn"
          using l1 [of ?k] l0 by simp
        have l2: "\<And>x. fd_lookup (snd (fd_dup2 (snd (fd_dup2 ?t ?k 1)) ?k 2)) x
                      = (if x = 2 then Some dn else fd_lookup (snd (fd_dup2 ?t ?k 1)) x)"
          using fd_lookup_dup2 [OF l1k, of 2] by simp
        have "p' = p\<lparr>fds := fd_close (snd (fd_dup2 (snd (fd_dup2 ?t ?k 1)) ?k 2)) ?k\<rparr>"
          using assms(1) Inr \<open>x = Some path\<close> Pair Some
          by (simp add: redirect_out_err_def fd_open_def STDOUT_FILENO_def STDERR_FILENO_def)
        then show ?thesis
          using k assms(2-) by (simp add: fd_lookup_close l2 l1 fd_lookup_store)
      qed
    qed
  qed
qed

lemma handle_redirection_keeps:
  assumes "handle_redirection sys cmd p w = Returns u p' w'"
    and "fd_lookup (fds p) fd = Some d" and "fd \<noteq> 0" and "fd \<noteq> 1" and "fd \<noteq> 2"
  shows "fd_lookup (fds p') fd = Some d"
proof (cases cmd)
  case None
  then show ?thesis using assms by (simp add: handle_redirection_def)
next
  case (Some c)
  then obtain u1 p1 w1 where i: "redirect_input sys c p w = Returns u1 p1 w1"
    and o: "redirect_output sys c p1 w1 = Returns u p' w'"
    using assms(1) by (auto simp: handle_redirection_def split: outcome.splits)
  have k1: "fd_lookup (fds p1) fd = Some d"
    using redirect_input_keeps [OF i assms(2,3)] .
  show ?thesis
  proof (cases "same_out_err c")
    case (Inl f)
    then show ?thesis using o by (simp add: redirect_output_def)
  next
    case (Inr b)
    show ?thesis
    proof (cases b)
      case True
      show ?thesis
      proof (cases "out c")
        case None
        then show ?thesis using o Inr True k1 by (simp add: redirect_output_def)
      next
        case (Some ow)
        then have "redirect_out_err sys c ow p1 w1 = Returns u p' w'"
          using o Inr True by (simp add: redirect_output_def)
        then show ?thesis by (rule redirect_out_err_keeps [OF _ k1 assms(4,5)])
      qed
    next
      case False
      then obtain u2 p2 w2 where a: "redirect_out sys c p1 w1 = Returns u2 p2 w2"
        and b: "redirect_err sys c p2 w2 = Returns u p' w'"
        using o Inr by (auto simp: redirect_output_def split: outcome.splits)
      show ?thesis
        using redirect_err_keeps [OF b redirect_out_keeps [OF a k1 assms(4)] assms(5)] .
    qed
  qed
qed

text \<open>\<^verbatim>\<open>cd\<close> with an empty argument string goes to \<^verbatim>\<open>HOME\<close> and then frees the pointer
  that \<^verbatim>\<open>getenv\<close> returned.\<close>

lemma shell_cd_empty_string_faults:
  assumes "string d = Some []" and "getenv (environ p) ''HOME'' = Some home"
  shows "\<exists>w'. shell_cd sys (Some d) p w = Faults InvalidFree w'"
  using assms by (cases "sys_chdir sys w (cwd p) home") (simp_all add: shell_cd_def Let_def)

lemma shell_cd_fds: "shell_cd sys dir p w = Returns ok p' w' \<Longrightarrow> fds p' = fds p"
  by (auto simp: shell_cd_def Let_def split: option.splits sum.splits if_splits)

text \<open>When the shell enters a builtin with descriptors 0, 1 and 2 open and the builtin
  returns, descriptors 1 and 2 refer to the descriptions they referred to before.\<close>

lemma run_builtin_restores_stdout_stderr:
  assumes "run_builtin sys s word p w = Returns r p' w'"
    and "fd_lookup (fds p) STDIN_FILENO \<noteq> None"
    and "fd_lookup (fds p) STDOUT_FILENO = Some d1"
    and "fd_lookup (fds p) STDERR_FILENO = Some d2"
  shows "fd_lookup (fds p') STDOUT_FILENO = Some d1 \<and> fd_lookup (fds p') STDERR_FILENO = Some d2"
proof -
  let ?k1 = "lowest_free (fds p)"
  let ?t1 = "fd_store (fds p) ?k1 (Some d1)"
  let ?k2 = "lowest_free ?t1"
  let ?t2 = "fd_store ?t1 ?k2 (Some d2)"
  have s0: "fd_lookup (fds p) 0 \<noteq> None" and s1: "fd_lookup (fds p) 1 = Some d1"
    and s2: "fd_lookup (fds p) 2 = Some d2"
    using assms(2-4) by (simp_all add: STDIN_FILENO_def STDOUT_FILENO_def STDERR_FILENO_def)
  have k1: "int ?k1 \<noteq> 0" "int ?k1 \<noteq> 1" "int ?k1 \<noteq> 2"
    using s0 s1 s2 lowest_free_unused [of "fds p"] by (metis option.distinct(1))+
  have t1: "fd_lookup ?t1 0 \<noteq> None" "fd_lookup ?t1 1 = Some d1" "fd_lookup ?t1 2 = Some d2"
    "fd_lookup ?t1 (int ?k1) = Some d1"
    using s0 s1 s2 k1 by (simp_all add: fd_lookup_store)
  have k2: "int ?k2 \<noteq> 0" "int ?k2 \<noteq> 1" "int ?k2 \<noteq> 2" "int ?k2 \<noteq> int ?k1"
    using t1 lowest_free_unused [of ?t1] by (metis option.distinct(1))+
  have t2: "fd_lookup ?t2 (int ?k1) = Some d1" "fd_lookup ?t2 (int ?k2) = Some d2"
    using t1 k2 by (simp_all add: fd_lookup_store)
  have d1: "fd_dup (fds p) STDOUT_FILENO = (int ?k1, ?t1)"
    using s1 by (simp add: fd_dup_def STDOUT_FILENO_def)
  have d2: "fd_dup ?t1 STDERR_FILENO = (int ?k2, ?t2)"
    using t1 by (simp add: fd_dup_def STDERR_FILENO_def)
  obtain u p1 w1 where h: "handle_redirection sys (Some s) (p\<lparr>fds := ?t2\<rparr>) w = Returns u p1 w1"
    using assms(1) d1 d2 by (auto simp: run_builtin_def split: outcome.splits)
  have a1: "fd_lookup (fds p1) (int ?k1) = Some d1"
    using handle_redirection_keeps [OF h _ k1] t2 by simp
  have a2: "fd_lookup (fds p1) (int ?k2) = Some d2"
    using handle_redirection_keeps [OF h _ k2(1-3)] t2 by simp
  obtain p2 w2 where b: "fds p2 = fds p1"
    and r: "p' = p2\<lparr>fds := fd_close (fd_close
                (snd (fd_dup2 (snd (fd_dup2 (fds p2) (int ?k1) 1)) (int ?k2) 2))
                (int ?k1)) (int ?k2)\<rparr>"
    using assms(1) d1 d2 h
    by (auto simp: run_builtin_def shell_exit_def STDOUT_FILENO_def STDERR_FILENO_def
        dest: shell_cd_fds split: if_splits outcome.splits)
  have l1: "\<And>x. fd_lookup (snd (fd_dup2 (fds p1) (int ?k1) 1)) x
                = (if x = 1 then Some d1 else fd_lookup (fds p1) x)"
    using fd_lookup_dup2 [OF a1, of 1] by simp
  have l1k: "fd_lookup (snd (fd_dup2 (fds p1) (int ?k1) 1)) (int ?k2) = Some d2"
    using l1 [of "int ?k2"] k2 a2 by simp
  have l2: "\<And>x. fd_lookup (snd (fd_dup2 (snd (fd_dup2 (fds p1) (int ?k1) 1)) (int ?k2) 2)) x
                = (if x = 2 then Some d2
                   else fd_lookup (snd (fd_dup2 (fds p1) (int ?k1) 1)) x)"
    using fd_lookup_dup2 [OF l1k, of 2] by simp
  show ?thesis
    using r b k1 k2
    by (simp add: fd_lookup_close l2 l1 STDOUT_FILENO_def STDERR_FILENO_def)
qed

text \<open>C6. After a builtin with redirect targets the shell's standard input, output and
  error should be what they were before. The code saves and puts back descriptors 1 and
  2 only (\<open>run_builtin_restores_stdout_stderr\<close>): after \<^verbatim>\<open>pwd < in.txt\<close> descriptor 0 of
  the shell refers to the file (description 1) and no longer to the terminal
  (description 0).\<close>

theorem builtin_leaves_stdin_redirected:
  "parse_simple demo (Some pwd_from_file) 0 NULL_command shell0 []
     = Returns 0 (shell0\<lparr>fds := [Some 1, Some 0, Some 0, None, None, None]\<rparr>)
         [Opened ''in.txt'' {O_RDONLY}, Wrote 0 (''/'' @ [CHR 0x0A])]
   \<and> fd_lookup (fds shell0) STDIN_FILENO = Some 0
   \<and> fd_lookup [Some 1, Some 0, Some 0, None, None, None] STDIN_FILENO = Some 1"
  by (simp add: pwd_from_file_def demo_simps)

section \<open>Assignments\<close>

text \<open>Every call of \<^verbatim>\<open>strtok_r\<close> on a string that is not empty moves the save pointer, and
  no call moves it back. A word that holds \<^verbatim>\<open>=\<close> is not empty, so at the end of the
  assignment branch \<^verbatim>\<open>word_copy\<close> is never the pointer that \<^verbatim>\<open>strdup\<close> returned.\<close>

lemma strtok_r_not_longer: "length (snd (strtok_r s delim)) \<le> length s"
proof -
  let ?s = "dropWhile (\<lambda>c. c \<in> set delim) s"
  have "length (drop 1 (dropWhile (\<lambda>c. c \<notin> set delim) ?s)) \<le> length ?s"
    using length_dropWhile_le [of "\<lambda>c. c \<notin> set delim" ?s] by simp
  moreover have "length ?s \<le> length s" by (rule length_dropWhile_le)
  ultimately show ?thesis by (simp add: strtok_r_def Let_def)
qed

lemma strtok_r_moves:
  assumes "s \<noteq> []"
  shows "length (snd (strtok_r s delim)) < length s"
proof -
  let ?s = "dropWhile (\<lambda>c. c \<in> set delim) s"
  let ?r = "dropWhile (\<lambda>c. c \<notin> set delim) ?s"
  have le: "length ?s \<le> length s" by (rule length_dropWhile_le)
  show ?thesis
  proof (cases "?s = []")
    case True
    then have "snd (strtok_r s delim) = []"
      unfolding strtok_r_def Let_def by (simp only: refl if_True snd_conv)
    then show ?thesis using assms by simp
  next
    case False
    then have eq: "snd (strtok_r s delim) = drop 1 ?r"
      unfolding strtok_r_def Let_def by (simp only: if_False snd_conv)
    have a: "length (drop 1 ?r) = length ?r - 1" by (rule length_drop)
    have b: "length ?r \<le> length ?s" by (rule length_dropWhile_le)
    have c: "0 < length ?s" using False by (rule length_greater_0_conv [THEN iffD2])
    have "length (drop 1 ?r) < length s" using a b c le by linarith
    then show ?thesis by (simp only: eq)
  qed
qed

lemma assign_variable_faults:
  assumes "word \<noteq> []"
  shows "assign_variable word p w = Faults InvalidFree w"
proof -
  obtain name word_copy where a: "strtok_r word ''='' = (name, word_copy)" by (metis surj_pair)
  obtain val word_copy' where b: "strtok_r word_copy ''='' = (val, word_copy')"
    by (metis surj_pair)
  have "length word_copy < length word" using strtok_r_moves [OF assms, of "''=''"] a by simp
  moreover have "length word_copy' \<le> length word_copy"
    using strtok_r_not_longer [of word_copy "''=''"] b by simp
  ultimately have "\<not> points_to_start word word_copy'" by (simp add: points_to_start_def)
  then show ?thesis using a b
    by (simp add: assign_variable_def split: option.splits prod.splits)
qed

text \<open>What \<^verbatim>\<open>setenv\<close> is called with before that: for \<^verbatim>\<open>A=b=c\<close> the value is \<^verbatim>\<open>b\<close>, and for
  \<^verbatim>\<open>A=\<close> there is no value and \<^verbatim>\<open>setenv\<close> is not called.\<close>

lemma strtok_r_cuts_value:
  "strtok_r ''A=b=c'' ''='' = (Some ''A'', ''b=c'')
   \<and> strtok_r ''b=c'' ''='' = (Some ''b'', ''c'')
   \<and> strtok_r ''A='' ''='' = (Some ''A'', [])
   \<and> strtok_r [] ''='' = (None, [])"
  by (simp add: strtok_r_def)

text \<open>C5. The command \<^verbatim>\<open>NAME=VALUE\<close> should set \<^verbatim>\<open>NAME\<close> to everything after the first
  \<^verbatim>\<open>=\<close>, return the result of the set, and leave the process in a state in which
  \<^verbatim>\<open>$NAME\<close> expands to \<^verbatim>\<open>VALUE\<close>. In the code every assignment ends in
  \<^verbatim>\<open>free(word_copy)\<close> on a pointer that \<^verbatim>\<open>strtok_r\<close> has moved, which is undefined behaviour:
  no status is returned and the process that ran the assignment is lost.\<close>

theorem assignment_frees_moved_pointer:
  assumes "verb sc = Some v" and "string v = Some str"
    and "CHR ''='' \<in> set (get_word sys (environ p) v)"
  shows "parse_simple sys (Some sc) level father p w = Faults InvalidFree w"
proof -
  have "get_word sys (environ p) v \<noteq> []" using assms(3) by auto
  then show ?thesis using assms by (simp add: parse_simple_def assign_variable_faults)
qed

text \<open>The assignment \<^verbatim>\<open>A=b\<close> in the shell itself.\<close>

theorem assignment_frees_moved_pointer_witness:
  "parse_simple demo (Some (simple ''A=b'')) 0 NULL_command shell0 [] = Faults InvalidFree []"
proof -
  have v: "verb (simple ''A=b'') = Some \<lparr>string = Some ''A=b''\<rparr>" by (simp add: simple_def)
  have s: "string \<lparr>string = Some ''A=b''\<rparr> = Some ''A=b''" by simp
  have e: "CHR ''='' \<in> set (get_word demo (environ shell0) \<lparr>string = Some ''A=b''\<rparr>)"
    by (simp add: demo_def word_string_def)
  show ?thesis using assignment_frees_moved_pointer [OF v s e] .
qed

section \<open>Rejected commands\<close>

text \<open>C9, as amended. For every simple command that is null, or whose verb is null, or
  whose verb has a null string, the executor returns -1, a status that no child exit code
  equals (\<open>WEXITSTATUS\<close> is never -1), and leaves process and world untouched: no builtin
  is dispatched and no program executed. An empty verb string is not rejected.\<close>

theorem parse_simple_null_verb:
  assumes "s = None \<or> (\<exists>sc. s = Some sc \<and> (verb sc = None
             \<or> (\<exists>v. verb sc = Some v \<and> string v = None)))"
  shows "parse_simple sys s level father p w = Returns (- 1) p w
         \<and> (\<forall>st. WEXITSTATUS st \<noteq> - 1)"
proof -
  have "WEXITSTATUS st \<noteq> - 1" for st
    by (cases st) (simp_all add: WEXITSTATUS_def)
  then show ?thesis using assms by (auto simp: parse_simple_def)
qed

theorem parse_simple_null_verb_witness:
  "parse_simple demo (Some ((simple ''pwd'')\<lparr>verb := Some \<lparr>string = None\<rparr>\<rparr>)) 0 NULL_command
     shell0 [] = Returns (- 1) shell0 []
   \<and> parse_simple demo (Some ((simple ''pwd'')\<lparr>verb := None\<rparr>)) 0 NULL_command
     shell0 [] = Returns (- 1) shell0 []
   \<and> parse_simple demo None 0 NULL_command shell0 [] = Returns (- 1) shell0 []"
  using parse_simple_null_verb [of "Some ((simple ''pwd'')\<lparr>verb := Some \<lparr>string = None\<rparr>\<rparr>)"
      demo 0 NULL_command shell0 "[]"]
    parse_simple_null_verb [of "Some ((simple ''pwd'')\<lparr>verb := None\<rparr>)"
      demo 0 NULL_command shell0 "[]"]
    parse_simple_null_verb [of None demo 0 NULL_command shell0 "[]"]
  by (simp add: simple_def)

text \<open>C9 as stated fails on the empty verb: the shell forks, the child's \<^verbatim>\<open>execvp\<close> of the
  empty name fails and reports it, and the executor returns the child's exit status 1.\<close>

theorem parse_simple_empty_verb_counterexample:
  "parse_simple demo (Some (simple [])) 0 NULL_command shell0 []
     = Returns 1 shell0 [Wrote 0 (''Execution failed for '' @ [CHR 0x27, CHR 0x27, CHR 0x0A])]
   \<and> WEXITSTATUS (Exited 1) = 1"
  by (simp add: demo_simps)

section \<open>The end of the shell process\<close>

text \<open>In the process that evaluates a tree, \<^verbatim>\<open>exit\<close> is reached in two ways only: by the
  builtins \<^verbatim>\<open>exit\<close> and \<^verbatim>\<open>quit\<close>, with status 0, and by \<^verbatim>\<open>handle_redirection\<close> run for a
  builtin, with status \<^verbatim>\<open>EXIT_FAILURE\<close>. External programs and the children of parallel and
  pipe nodes end in processes of their own.\<close>

lemma handle_redirection_Exits:
  "handle_redirection sys cmd p w = Exits code w' \<Longrightarrow> code = EXIT_FAILURE"
  by (auto simp: handle_redirection_def redirect_input_def redirect_output_def
      redirect_out_def redirect_err_def redirect_out_err_def
      split: option.splits sum.splits prod.splits if_splits outcome.splits bool.splits)

lemma run_external_Returns: "\<exists>r w'. run_external sys s word p w = Returns r p w'"
  by (auto simp: run_external_def split: option.splits prod.splits outcome.splits)

lemma assign_variable_not_Exits: "assign_variable word p w \<noteq> Exits code w'"
proof -
  obtain name word_copy where a: "strtok_r word ''='' = (name, word_copy)" by (metis surj_pair)
  obtain val word_copy' where b: "strtok_r word_copy ''='' = (val, word_copy')"
    by (metis surj_pair)
  show ?thesis
  proof (cases name)
    case None
    then show ?thesis by (simp add: assign_variable_def a b)
  next
    case (Some name')
    note n = this
    show ?thesis
    proof (cases val)
      case None
      then show ?thesis using n by (simp add: assign_variable_def a b)
    next
      case (Some val')
      obtain result env' where "setenv (environ p) name' val' 1 = (result, env')"
        by (metis surj_pair)
      then show ?thesis using n Some by (simp add: assign_variable_def a b)
    qed
  qed
qed

lemma shell_cd_not_Exits: "shell_cd sys dir p w \<noteq> Exits code w'"
  by (auto simp: shell_cd_def Let_def split: option.splits sum.splits)

lemma parse_simple_Exits:
  assumes "parse_simple sys (Some sc) level father p w = Exits code w'"
    and "verb sc = Some v"
  shows "((get_word sys (environ p) v = ''exit'' \<or> get_word sys (environ p) v = ''quit'')
            \<and> code = 0)
         \<or> ((get_word sys (environ p) v = ''cd'' \<or> get_word sys (environ p) v = ''pwd''
              \<or> get_word sys (environ p) v = ''exit'' \<or> get_word sys (environ p) v = ''quit'')
            \<and> code = EXIT_FAILURE
            \<and> (\<exists>p0. handle_redirection sys (Some sc) p0 w = Exits code w'))"
proof -
  let ?word = "get_word sys (environ p) v"
  obtain str where str: "string v = Some str"
    using assms by (auto simp: parse_simple_def split: option.splits)
  have no_eq: "CHR ''='' \<notin> set ?word"
    using assms str assign_variable_not_Exits [of ?word p w code w']
    by (auto simp: parse_simple_def Let_def)
  have builtin: "?word = ''cd'' \<or> ?word = ''pwd'' \<or> ?word = ''exit'' \<or> ?word = ''quit''"
    using assms str no_eq run_external_Returns [of sys sc ?word p w]
    by (auto simp: parse_simple_def Let_def split: if_splits)
  then have rb: "run_builtin sys sc ?word p w = Exits code w'"
    using assms str no_eq by (auto simp: parse_simple_def Let_def)
  obtain k1 t1 k2 t2 where d: "fd_dup (fds p) STDOUT_FILENO = (k1, t1)"
    "fd_dup t1 STDERR_FILENO = (k2, t2)"
    by (metis surj_pair)
  show ?thesis
  proof (cases "handle_redirection sys (Some sc) (p\<lparr>fds := t2\<rparr>) w")
    case (Returns u p1 w1)
    then show ?thesis using rb d builtin shell_cd_not_Exits [of sys "params sc" p1 w1]
      by (auto simp: run_builtin_def shell_exit_def split: if_splits outcome.splits)
  next
    case (Exits c w1)
    then have "c = code" "w1 = w'" using rb d by (simp_all add: run_builtin_def)
    then show ?thesis using Exits builtin handle_redirection_Exits [OF Exits] by blast
  next
    case (Faults f w1)
    then show ?thesis using rb d by (simp add: run_builtin_def)
  qed
qed

lemma parse_simple_Exits_code:
  assumes "parse_simple sys s level father p w = Exits code w'"
  shows "code = 0 \<or> code = EXIT_FAILURE"
proof -
  obtain sc v where "s = Some sc" "verb sc = Some v"
    using assms by (auto simp: parse_simple_def split: option.splits)
  then show ?thesis using parse_simple_Exits [of sys sc level father p w code w' v] assms
    by blast
qed

lemma parse_command_Exits_code:
  "parse_command sys c level father p w = Exits code w' \<Longrightarrow> code = 0 \<or> code = EXIT_FAILURE"
proof (induction c arbitrary: level father p w)
  case NULL_command
  then show ?case by simp
next
  case (Command op' scmd cmd1 cmd2)
  show ?case
  proof (cases "father = NULL_command \<and> level \<noteq> 0")
    case True
    then show ?thesis using Command.prems by simp
  next
    case False
    then show ?thesis
      using Command.prems Command.IH parse_simple_Exits_code [of sys scmd level father p w code w']
      by (cases op')
        (auto split: outcome.splits prod.splits if_splits)
  qed
qed

text \<open>C3. Only the builtins \<^verbatim>\<open>exit\<close> and \<^verbatim>\<open>quit\<close> should end the shell process; a
  redirection target that cannot be opened while a builtin runs in the shell itself
  should be reported and give a failure status. In the code \<^verbatim>\<open>handle_redirection\<close> calls
  \<^verbatim>\<open>exit(EXIT_FAILURE)\<close> in whichever process runs it: \<^verbatim>\<open>pwd > /missing/file\<close> at the top
  level ends the shell with status 1.\<close>

theorem builtin_failed_redirect_exits_shell:
  "parse_command demo (leaf pwd_to_missing_file) 0 NULL_command shell0 []
     = Exits 1 [Wrote 0 ''Error opening output file: '']"
  by (simp add: pwd_to_missing_file_def demo_simps)

end
